theory Spec2Isabelle
  imports Main "HOL-Library.AList"
begin

section \<open>JavaScript values\<close>

text \<open>
  The client of \<^verbatim>\<open>lib/client.js\<close> works on whatever \<^verbatim>\<open>JSON.parse\<close> returns, so inbound
  data is a JavaScript value. \<open>JUndefined\<close> is the value read from a property that is
  absent; it never occurs inside parsed JSON. Numbers are the integers that a double
  represents exactly (below \<open>2 ^ 53\<close>); fractions are not modelled. The list of a
  \<open>JObj\<close> holds the own properties of the object.
\<close>

datatype jsval =
    JUndefined
  | JNull
  | JBool bool
  | JNum int
  | JStr string
  | JArr "jsval list"
  | JObj "(string \<times> jsval) list"

text \<open>
  \<^verbatim>\<open>data.k\<close> for the property names the client reads (\<^verbatim>\<open>hello, sid, isNew, n, d, r, e, i\<close>):
  none of them is a property of a prototype, so only the own properties of an object
  count. Reading a property of \<^verbatim>\<open>null\<close> or \<^verbatim>\<open>undefined\<close> throws a TypeError; the callers
  test \<open>nullish\<close> first and model the throw there.
\<close>

fun js_get :: "jsval \<Rightarrow> string \<Rightarrow> jsval" where
  "js_get (JObj kvs) k = (case map_of kvs k of None \<Rightarrow> JUndefined | Some v \<Rightarrow> v)"
| "js_get _ k = JUndefined"

definition nullish :: "jsval \<Rightarrow> bool" where
  "nullish v = (v = JUndefined \<or> v = JNull)"

text \<open>The truth value of a JavaScript value in a condition.\<close>

fun truthy :: "jsval \<Rightarrow> bool" where
  "truthy JUndefined = False"
| "truthy JNull = False"
| "truthy (JBool b) = b"
| "truthy (JNum n) = (n \<noteq> 0)"
| "truthy (JStr s) = (s \<noteq> [])"
| "truthy (JArr xs) = True"
| "truthy (JObj kvs) = True"

subsection \<open>Property keys of the callback table\<close>

text \<open>
  \<^verbatim>\<open>this._callbacks\<close> is a plain object \<^verbatim>\<open>{}\<close>. \<^verbatim>\<open>execute\<close> stores a handler under the
  number \<^verbatim>\<open>message.i\<close>, that is under its decimal string. An inbound \<^verbatim>\<open>data.i\<close> is any
  value; \<^verbatim>\<open>this._callbacks[data.i]\<close> converts it to a string first. \<open>key_of\<close> says what
  that string names: the index \<open>k\<close> when it is the canonical decimal of \<open>k\<close>, a property
  inherited from \<^verbatim>\<open>Object.prototype\<close>, or nothing a handler can be stored under.
\<close>

datatype prop_key = IntKey nat | ProtoKey | NoKey

definition is_digit :: "char \<Rightarrow> bool" where
  "is_digit ch = (48 \<le> (of_char ch :: nat) \<and> (of_char ch :: nat) \<le> 57)"

definition digits_value :: "string \<Rightarrow> nat" where
  "digits_value s = foldl (\<lambda>a ch. 10 * a + ((of_char ch :: nat) - 48)) 0 s"

definition canonical_index :: "string \<Rightarrow> nat option" where
  "canonical_index s =
     (if s \<noteq> [] \<and> list_all is_digit s \<and> (hd s \<noteq> CHR ''0'' \<or> length s = 1)
      then Some (digits_value s) else None)"

definition object_prototype_names :: "string list" where
  "object_prototype_names =
     [''constructor'', ''__defineGetter__'', ''__defineSetter__'', ''hasOwnProperty'',
      ''__lookupGetter__'', ''__lookupSetter__'', ''isPrototypeOf'',
      ''propertyIsEnumerable'', ''toString'', ''valueOf'', ''__proto__'',
      ''toLocaleString'']"

fun key_of :: "jsval \<Rightarrow> prop_key" where
  "key_of (JNum n) = (if 0 \<le> n then IntKey (nat n) else NoKey)"
| "key_of (JStr s) =
     (case canonical_index s of
        Some k \<Rightarrow> IntKey k
      | None \<Rightarrow> if s \<in> set object_prototype_names then ProtoKey else NoKey)"
| "key_of (JArr [x]) = (if nullish x then NoKey else key_of x)"
| "key_of _ = NoKey"

section \<open>The data of a client\<close>

text \<open>
  An outbound message of \<^verbatim>\<open>execute\<close>: \<^verbatim>\<open>{m: command, p?: params, i?: id}\<close>. A property
  that the code does not set is \<open>None\<close>. \<^verbatim>\<open>JSON.stringify\<close> is not applied: the transport
  and the queue hold the message itself.
\<close>

record frame =
  f_m :: string
  f_p :: "jsval option"
  f_i :: "nat option"

text \<open>
  The options object handed on to \<^verbatim>\<open>new WebSocketConnection\<close>; \<open>None\<close> is a property
  the constructor did not set. \<open>co_retryCount = Some (- 1)\<close> is \<^verbatim>\<open>'always'\<close>.
\<close>

record conn_options =
  co_apiKey :: "string option"
  co_retryCount :: "int option"
  co_retryDelay :: "int option"
  co_pingTimeout :: "int option"

text \<open>
  The address \<^verbatim>\<open>_getUri\<close> builds: the base and the \<^verbatim>\<open>params\<close> object that
  \<^verbatim>\<open>querystring.stringify\<close> would append after a \<^verbatim>\<open>?\<close> when it is not empty.
\<close>

record address =
  a_base :: string
  a_params :: "(string \<times> jsval) list"

subsection \<open>The transport connection\<close>

text \<open>
  Modelled from the spec: \<^verbatim>\<open>lib/websocket-connection.js\<close> (the class
  \<^verbatim>\<open>WebSocketConnection\<close>) is not among the sources. The spec gives its contract:
  it "exposes connect/send/close and emits connected, message-received,
  closed(code,reason), and connection-error(retryable?) signals", and its states are the
  ones of the Connection Supervisor: no attempt yet, \<open>Connecting\<close> (attempt in flight),
  \<open>Open\<close>, \<open>Backoff\<close> (waiting before the next attempt), \<open>Terminated\<close> (retries
  exhausted), and closed by an explicit disconnect or by the peer. \<open>t_attempts\<close> counts
  the failed attempts of this logical connection and \<open>t_sent\<close> lists the frames handed
  to \<^verbatim>\<open>send\<close>, oldest first.
\<close>

datatype tstate = TNew | TConnecting | TOpen | TBackoff | TClosed | TTerminated

record transport =
  t_uri :: address
  t_options :: conn_options
  t_state :: tstate
  t_attempts :: nat
  t_sent :: "frame list"

text \<open>
  Modelled from the spec: \<^verbatim>\<open>new WebSocketConnection(uri, options)\<close>, the missing
  constructor: an object that has made no attempt and sent nothing.
\<close>

definition new_WebSocketConnection :: "address \<Rightarrow> conn_options \<Rightarrow> transport" where
  "new_WebSocketConnection u opts =
     \<lparr>t_uri = u, t_options = opts, t_state = TNew, t_attempts = 0, t_sent = []\<rparr>"

text \<open>
  Modelled from the spec: the missing \<^verbatim>\<open>connect()\<close>, \<^verbatim>\<open>disconnect()\<close> (the spec's
  \<^verbatim>\<open>close()\<close>), \<^verbatim>\<open>isConnected()\<close> and \<^verbatim>\<open>send(frame)\<close> of the transport. A Transport
  Connection "wraps one physical connection attempt": \<^verbatim>\<open>connect()\<close> starts the attempt of
  an object that has made none and does nothing on an object that has connected before
  or was closed (the client makes a new object, with a new id, for every reconnection).
  An explicit close raises no signal (the \<^verbatim>\<open>disconnected\<close> signal is the "unexpected
  close") and stops the retries of the connection.
\<close>

definition t_connect :: "transport \<Rightarrow> transport" where
  "t_connect t = (if t_state t = TNew then t\<lparr>t_state := TConnecting\<rparr> else t)"

definition t_disconnect :: "transport \<Rightarrow> transport" where
  "t_disconnect t = t\<lparr>t_state := TClosed\<rparr>"

definition t_isConnected :: "transport \<Rightarrow> bool" where
  "t_isConnected t = (t_state t = TOpen)"

definition t_send :: "frame \<Rightarrow> transport \<Rightarrow> transport" where
  "t_send f t = t\<lparr>t_sent := t_sent t @ [f]\<rparr>"

text \<open>
  The object a \<^verbatim>\<open>connectionError\<close> signal carries:
  \<^verbatim>\<open>{retry: bool, attempts: int, error: err}\<close>.
\<close>

record conn_error =
  err_retry :: bool
  err_attempts :: nat
  err_error :: jsval

text \<open>
  Modelled from the spec: how the missing transport classifies a failed attempt.
  "if retryable and the attempt counter for this logical connection is below the
  configured retry count (or retry count is configured as unbounded), schedule a retry
  after the delay [...]; otherwise [...] enter Terminated"; "default retry count is
  unbounded". The counter compared is the number of attempts that failed before this
  one, so that with \<open>retryCount = N\<close> "the (N+1)-th failure yields exactly one terminal
  observable"; the signal reports the attempts made so far, this one included.
\<close>

definition retry_limit :: "conn_options \<Rightarrow> nat option" where
  "retry_limit opts =
     (case co_retryCount opts of
        None \<Rightarrow> None
      | Some v \<Rightarrow> if v = - 1 then None else Some (nat v))"

definition t_fail :: "jsval \<Rightarrow> bool \<Rightarrow> transport \<Rightarrow> transport \<times> conn_error" where
  "t_fail error retryable t =
     (let retry = (retryable \<and>
                   (case retry_limit (t_options t) of
                      None \<Rightarrow> True
                    | Some n \<Rightarrow> t_attempts t < n));
          attempts = Suc (t_attempts t)
      in (t\<lparr>t_attempts := attempts, t_state := (if retry then TBackoff else TTerminated)\<rparr>,
          \<lparr>err_retry = retry, err_attempts = attempts, err_error = error\<rparr>))"

subsection \<open>The client object\<close>

text \<open>
  The fields of \<^verbatim>\<open>class Client\<close>, under their names without the underscore.
  \<^verbatim>\<open>_connection\<close> is a reference to a \<^verbatim>\<open>WebSocketConnection\<close> object: the objects live
  in the store \<open>conns\<close>, addressed by the value \<^verbatim>\<open>_connectionCounter\<close> had when
  \<^verbatim>\<open>_createConnection\<close> made them (an address above the counter holds an object not yet
  made), since a handler or a timer keeps its object after the client has replaced it.
  \<open>timers\<close> lists the objects whose delayed \<^verbatim>\<open>connect()\<close> (\<^verbatim>\<open>setTimeout\<close>) has not run
  yet. \<open>'h\<close> is the type of the callbacks passed to \<^verbatim>\<open>execute\<close>.
\<close>

record 'h client =
  uri :: string
  queryParams :: "(string \<times> jsval) list"
  sessionId :: jsval
  globalListener :: bool
  retryDelay :: int
  connectionOptions :: conn_options
  connectionCounter :: nat
  connection :: "nat option"
  connectedTimestamp :: "nat option"
  readyTimestamp :: "nat option"
  nextCommandId :: nat
  callbacks :: "nat \<rightharpoonup> 'h"
  queue :: "frame list"
  conns :: "nat \<Rightarrow> transport"
  timers :: "nat list"

text \<open>
  What the client emits to its listeners and the callbacks it calls, in order. In
  \<open>processMessage\<close> and in the runs below, listeners and callbacks return normally and do
  not call the client back while it runs; what the listeners of \<^verbatim>\<open>ready\<close> do when they
  call the client back, or throw, is \<open>processMessage_listening\<close>.
\<close>

datatype 'h emitted =
    Connected nat
  | Disconnected nat jsval jsval
  | ConnectionError nat nat jsval
  | Terminated nat nat jsval
  | Ready jsval jsval
  | Kind jsval jsval
  | Notification jsval
  | Callback 'h jsval jsval

section \<open>The operations of the client\<close>

subsection \<open>Addressing\<close>

text \<open>
  \<^verbatim>\<open>_getUri\<close>. The body of the \<^verbatim>\<open>_.forEach\<close> over \<^verbatim>\<open>this._queryParams\<close>: the cases
  \<^verbatim>\<open>'expires'\<close> and \<^verbatim>\<open>'timeout'\<close> break when \<^verbatim>\<open>_readyTimestamp\<close> is set and fall through
  to \<^verbatim>\<open>params[key] = value\<close> otherwise. The loop stands inside the test
  \<^verbatim>\<open>null !== this._sessionId\<close>.
\<close>

definition getUri_each ::
  "bool \<Rightarrow> string \<times> jsval \<Rightarrow> (string \<times> jsval) list \<Rightarrow> (string \<times> jsval) list" where
  "getUri_each ready kv params =
     (if (fst kv = ''expires'' \<or> fst kv = ''timeout'') \<and> ready then params
      else AList.update (fst kv) (snd kv) params)"

definition getUri :: "'h client \<Rightarrow> address" where
  "getUri c =
     (let params =
            (if sessionId c \<noteq> JNull
             then fold (getUri_each (readyTimestamp c \<noteq> None)) (queryParams c)
                    [(''sid'', sessionId c)]
             else [])
      in \<lparr>a_base = uri c, a_params = params\<rparr>)"

definition getSessionId :: "'h client \<Rightarrow> jsval" where
  "getSessionId c = sessionId c"

subsection \<open>Connections\<close>

text \<open>
  \<^verbatim>\<open>_createConnection(delay)\<close>: \<open>None\<close> is the call without argument. The new object
  becomes \<^verbatim>\<open>this._connection\<close>; it is connected at once, or a timer is set whose
  callback is \<open>timer_callback\<close>. The four handlers registered on the object follow as
  \<open>on_disconnected\<close>, \<open>on_connectionError\<close>, \<open>on_connected\<close> and \<open>processMessage\<close>.
\<close>

definition createConnection :: "int option \<Rightarrow> 'h client \<Rightarrow> 'h client" where
  "createConnection delay c =
     (let counter = Suc (connectionCounter c);
          c1 = c\<lparr>connectionCounter := counter,
                 conns := (conns c)(counter := new_WebSocketConnection (getUri c) (connectionOptions c)),
                 connection := Some counter\<rparr>
      in case delay of
           None \<Rightarrow> c1\<lparr>conns := (conns c1)(counter := t_connect (conns c1 counter))\<rparr>
         | Some d \<Rightarrow> c1\<lparr>timers := timers c1 @ [counter]\<rparr>)"

text \<open>
  The callback of the \<^verbatim>\<open>setTimeout\<close> in \<^verbatim>\<open>_createConnection\<close>, for the object at
  \<open>counter\<close>: it returns when \<^verbatim>\<open>self._connection\<close> is \<^verbatim>\<open>null\<close> and calls
  \<^verbatim>\<open>connection.connect()\<close> on its own object otherwise.
\<close>

definition timer_callback :: "nat \<Rightarrow> 'h client \<Rightarrow> 'h client" where
  "timer_callback counter c =
     (if connection c = None then c
      else c\<lparr>conns := (conns c)(counter := t_connect (conns c counter))\<rparr>)"

definition connect :: "'h client \<Rightarrow> 'h client" where
  "connect c = (if connection c \<noteq> None then c else createConnection None c)"

definition reconnect :: "'h client \<Rightarrow> 'h client" where
  "reconnect c =
     (case connection c of
        None \<Rightarrow> c
      | Some k \<Rightarrow> createConnection None (c\<lparr>conns := (conns c)(k := t_disconnect (conns c k))\<rparr>))"

definition disconnect :: "'h client \<Rightarrow> 'h client" where
  "disconnect c =
     (case connection c of
        None \<Rightarrow> c
      | Some k \<Rightarrow> c\<lparr>connection := None, conns := (conns c)(k := t_disconnect (conns c k))\<rparr>)"

definition isConnected :: "'h client \<Rightarrow> bool" where
  "isConnected c =
     (case connection c of None \<Rightarrow> False | Some k \<Rightarrow> t_isConnected (conns c k))"

definition isReady :: "'h client \<Rightarrow> bool" where
  "isReady c = (readyTimestamp c \<noteq> None)"

subsection \<open>The send path\<close>

text \<open>\<^verbatim>\<open>_queueMessages\<close>: the loop pushes each entry of the list on \<^verbatim>\<open>this._queue\<close>.\<close>

fun queueMessages :: "frame list \<Rightarrow> 'h client \<Rightarrow> 'h client" where
  "queueMessages [] c = c"
| "queueMessages (x # xs) c = queueMessages xs (c\<lparr>queue := queue c @ [x]\<rparr>)"

text \<open>
  The loops of \<^verbatim>\<open>_send\<close> and \<^verbatim>\<open>_processQueue\<close>: each entry, from index 0 on, goes to
  \<^verbatim>\<open>send\<close> of the connection.
\<close>

fun send_all :: "frame list \<Rightarrow> transport \<Rightarrow> transport" where
  "send_all [] t = t"
| "send_all (x # xs) t = send_all xs (t_send x t)"

definition processQueue :: "'h client \<Rightarrow> 'h client" where
  "processQueue c =
     (if length (queue c) = 0 then c
      else case connection c of
             None \<Rightarrow> c
           | Some k \<Rightarrow> c\<lparr>conns := (conns c)(k := send_all (queue c) (conns c k)), queue := []\<rparr>)"

definition send :: "frame list \<Rightarrow> 'h client \<Rightarrow> 'h client" where
  "send list c =
     (case connection c of
        None \<Rightarrow> createConnection None (queueMessages list c)
      | Some k \<Rightarrow>
          if \<not> t_isConnected (conns c k) then queueMessages list c
          else if readyTimestamp c = None then queueMessages list c
          else c\<lparr>conns := (conns c)(k := send_all list (conns c k))\<rparr>)"

text \<open>
  \<^verbatim>\<open>execute(command, params, cb)\<close>: \<open>JUndefined\<close> for \<open>params\<close> and \<open>None\<close> for \<open>cb\<close> are
  the arguments left out. \<open>execute_message\<close> is the local \<^verbatim>\<open>message\<close>.
\<close>

definition execute_message :: "string \<Rightarrow> jsval \<Rightarrow> 'h option \<Rightarrow> 'h client \<Rightarrow> frame" where
  "execute_message command params cb c =
     \<lparr>f_m = command,
      f_p = (if params \<noteq> JUndefined then Some params else None),
      f_i = (case cb of None \<Rightarrow> None | Some h \<Rightarrow> Some (nextCommandId c))\<rparr>"

definition execute :: "string \<Rightarrow> jsval \<Rightarrow> 'h option \<Rightarrow> 'h client \<Rightarrow> 'h client" where
  "execute command params cb c =
     (let message = execute_message command params cb c;
          c1 = (case cb of
                  None \<Rightarrow> c
                | Some h \<Rightarrow> c\<lparr>nextCommandId := Suc (nextCommandId c),
                              callbacks := (callbacks c)(nextCommandId c \<mapsto> h)\<rparr>)
      in send [message] c1)"

subsection \<open>The handlers of a connection\<close>

definition on_disconnected ::
  "nat \<Rightarrow> jsval \<Rightarrow> jsval \<Rightarrow> 'h client \<Rightarrow> 'h client \<times> 'h emitted list" where
  "on_disconnected counter code reason c =
     (createConnection (Some (retryDelay c)) c, [Disconnected counter code reason])"

definition on_connectionError ::
  "nat \<Rightarrow> conn_error \<Rightarrow> 'h client \<Rightarrow> 'h client \<times> 'h emitted list" where
  "on_connectionError counter err c =
     (if err_retry err
      then (c, [ConnectionError counter (err_attempts err) (err_error err)])
      else (c, [Terminated counter (err_attempts err) (err_error err)]))"

definition on_connected :: "nat \<Rightarrow> nat \<Rightarrow> 'h client \<Rightarrow> 'h client \<times> 'h emitted list" where
  "on_connected counter now c = (c\<lparr>connectedTimestamp := Some now\<rparr>, [Connected counter])"

subsection \<open>Inbound messages\<close>

text \<open>
  \<^verbatim>\<open>undefined === this._callbacks[data.i]\<close> and what the lookup yields: a handler of the
  table, a built-in inherited from \<^verbatim>\<open>Object.prototype\<close>, or \<^verbatim>\<open>undefined\<close>.
\<close>

datatype 'h lookup = Own nat 'h | Inherited | Absent

definition callbacks_get :: "(nat \<rightharpoonup> 'h) \<Rightarrow> jsval \<Rightarrow> 'h lookup" where
  "callbacks_get cbs i =
     (case key_of i of
        NoKey \<Rightarrow> Absent
      | ProtoKey \<Rightarrow> Inherited
      | IntKey k \<Rightarrow> (case cbs k of None \<Rightarrow> Absent | Some cb \<Rightarrow> Own k cb))"

text \<open>
  \<^verbatim>\<open>_processResultMessage\<close> and \<^verbatim>\<open>_processErrorMessage\<close>. With an inherited built-in the
  \<^verbatim>\<open>delete\<close> removes nothing and the call either returns or throws a TypeError, which the
  \<^verbatim>\<open>catch\<close> of \<^verbatim>\<open>_processMessage\<close> swallows: the client is left as it was.
\<close>

definition processResultMessage :: "jsval \<Rightarrow> 'h client \<Rightarrow> 'h client \<times> 'h emitted list" where
  "processResultMessage data c =
     (case callbacks_get (callbacks c) (js_get data ''i'') of
        Absent \<Rightarrow> (c, [])
      | Inherited \<Rightarrow> (c, [])
      | Own k cb \<Rightarrow> (c\<lparr>callbacks := (callbacks c)(k := None)\<rparr>,
                     [Callback cb (js_get data ''r'') JNull]))"

definition processErrorMessage :: "jsval \<Rightarrow> 'h client \<Rightarrow> 'h client \<times> 'h emitted list" where
  "processErrorMessage data c =
     (case callbacks_get (callbacks c) (js_get data ''i'') of
        Absent \<Rightarrow> (c, [])
      | Inherited \<Rightarrow> (c, [])
      | Own k cb \<Rightarrow> (c\<lparr>callbacks := (callbacks c)(k := None)\<rparr>,
                     [Callback cb JNull (js_get data ''e'')]))"

text \<open>
  \<^verbatim>\<open>_processNotificationMessage\<close>. With the global listener, \<^verbatim>\<open>data.d.notification = data.n\<close>
  throws a TypeError in strict mode unless \<^verbatim>\<open>data.d\<close> is an object or an array (an array
  keeps its elements; the property set on it does not show in them); the \<^verbatim>\<open>catch\<close> of
  \<^verbatim>\<open>_processMessage\<close> swallows the throw.
\<close>

definition processNotificationMessage ::
  "jsval \<Rightarrow> 'h client \<Rightarrow> 'h client \<times> 'h emitted list" where
  "processNotificationMessage data c =
     (if \<not> globalListener c then (c, [Kind (js_get data ''n'') (js_get data ''d'')])
      else case js_get data ''d'' of
             JObj kvs \<Rightarrow>
               (c, [Notification (JObj (AList.update ''notification'' (js_get data ''n'') kvs))])
           | JArr xs \<Rightarrow> (c, [Notification (JArr xs)])
           | _ \<Rightarrow> (c, []))"

text \<open>
  \<^verbatim>\<open>_processMessage(message)\<close>, at the time \<open>now\<close> (\<^verbatim>\<open>new Date().getTime()\<close>). The message
  is given by what \<^verbatim>\<open>JSON.parse\<close> makes of it: \<open>None\<close> when it throws, the value
  otherwise. Every \<open>(c, [])\<close> marked "caught" is an exception that the \<^verbatim>\<open>catch\<close> around
  the whole body swallows before any field was written.
\<close>

definition processMessage ::
  "nat \<Rightarrow> jsval option \<Rightarrow> 'h client \<Rightarrow> 'h client \<times> 'h emitted list" where
  "processMessage now message c =
     (case message of
        None \<Rightarrow> (c, [])
      | Some data \<Rightarrow>
          if nullish data then (c, [])
          else if js_get data ''hello'' \<noteq> JUndefined then
            (let hello = js_get data ''hello'' in
             if nullish hello then (c, [])
             else
               (let c1 = c\<lparr>sessionId := js_get hello ''sid''\<rparr> in
                if readyTimestamp c1 = None \<or> truthy (js_get hello ''isNew'')
                then (processQueue (c1\<lparr>readyTimestamp := Some now\<rparr>),
                      [Ready (js_get hello ''sid'') (js_get hello ''isNew'')])
                else (processQueue c1, [])))
          else if readyTimestamp c = None then (c, [])
          else if js_get data ''n'' \<noteq> JUndefined then processNotificationMessage data c
          else if js_get data ''r'' \<noteq> JUndefined then processResultMessage data c
          else if js_get data ''e'' \<noteq> JUndefined then processErrorMessage data c
          else (c, []))"

subsection \<open>Listeners of the handshake\<close>

text \<open>
  \<^verbatim>\<open>this.emit('ready', ...)\<close> runs the listeners of \<^verbatim>\<open>ready\<close> synchronously, after
  \<^verbatim>\<open>_readyTimestamp\<close> is set and before \<^verbatim>\<open>_processQueue()\<close>, inside the \<^verbatim>\<open>try\<close> of
  \<^verbatim>\<open>_processMessage\<close>. A \<open>listener\<close> says what they do to the client: the calls
  \<^verbatim>\<open>execute(command, params, cb)\<close> they make, in order, and whether one of them throws
  after that. An exception leaves \<^verbatim>\<open>emit\<close> and is swallowed by the \<^verbatim>\<open>catch\<close>, so that
  \<^verbatim>\<open>_processQueue()\<close> is not reached. \<open>processMessage\<close> above is the case of listeners that
  call nothing and return.
\<close>

record 'h listener =
  l_calls :: "(string \<times> jsval \<times> 'h option) list"
  l_throws :: bool




subsection \<open>The constructor\<close>

text \<open>
  \<^verbatim>\<open>new Client(uri, options)\<close>. \<open>url\<close> is what \<^verbatim>\<open>url.parse(uri)\<close> returns, with the hash
  of \<^verbatim>\<open>querystring.parse(u.query)\<close> in place of the query string (\<open>None\<close> is \<^verbatim>\<open>null\<close>).
  In \<open>options\<close>, \<open>None\<close> is a property that is \<^verbatim>\<open>undefined\<close>; a numeric option is given
  by what \<^verbatim>\<open>parseInt\<close> makes of it, \<open>None\<close> being \<^verbatim>\<open>NaN\<close>. \<^verbatim>\<open>options.sessionId\<close> and
  \<^verbatim>\<open>options.apiKey\<close> are strings. Each \<^verbatim>\<open>throw new Error\<close> is a value of \<open>error\<close>.
\<close>

record url =
  protocol :: "string option"
  host :: string
  pathname :: "string option"
  query :: "(string \<times> jsval) list option"

datatype retry_count = Always | Parsed "int option"

record options =
  o_autoConnect :: "jsval"
  o_globalListener :: "jsval"
  o_sessionId :: "string option"
  o_apiKey :: "string option"
  o_retryCount :: "retry_count option"
  o_retryDelay :: "int option option"
  o_pingTimeout :: "int option option"

datatype error = UriError | RetryCountError | RetryDelayError | PingTimeoutError

definition RETRY_DELAY :: int where
  "RETRY_DELAY = 10 * 1000"

text \<open>\<^verbatim>\<open>String.prototype.trim\<close>, on the white space of ASCII.\<close>

definition is_space :: "char \<Rightarrow> bool" where
  "is_space ch = ((9 \<le> (of_char ch :: nat) \<and> (of_char ch :: nat) \<le> 13) \<or> (of_char ch :: nat) = 32)"

definition trim :: "string \<Rightarrow> string" where
  "trim s = rev (dropWhile is_space (rev (dropWhile is_space s)))"

text \<open>
  The body of the \<^verbatim>\<open>_.forEach\<close> over the hash of the query. On the plain object
  \<^verbatim>\<open>this._queryParams\<close> the assignment to the key \<^verbatim>\<open>__proto__\<close> stores no property (a
  query that repeats that key, whose array of values would become the prototype, is left
  out of the model).
\<close>

definition query_each :: "string \<times> jsval \<Rightarrow> 'h client \<Rightarrow> 'h client" where
  "query_each kv c =
     (if fst kv = ''sid'' then c\<lparr>sessionId := snd kv\<rparr>
      else if fst kv = ''__proto__'' then c
      else c\<lparr>queryParams := AList.update (fst kv) (snd kv) (queryParams c)\<rparr>)"

definition set_retryCount :: "retry_count option \<Rightarrow> 'h client \<Rightarrow> error + 'h client" where
  "set_retryCount rc c =
     (case rc of
        None \<Rightarrow> Inr c
      | Some Always \<Rightarrow> Inr (c\<lparr>connectionOptions := (connectionOptions c)\<lparr>co_retryCount := Some (- 1)\<rparr>\<rparr>)
      | Some (Parsed None) \<Rightarrow> Inl RetryCountError
      | Some (Parsed (Some v)) \<Rightarrow>
          if v < 0 then Inl RetryCountError
          else Inr (c\<lparr>connectionOptions := (connectionOptions c)\<lparr>co_retryCount := Some v\<rparr>\<rparr>))"

definition set_retryDelay :: "int option option \<Rightarrow> 'h client \<Rightarrow> error + 'h client" where
  "set_retryDelay rd c =
     (case rd of
        None \<Rightarrow> Inr c
      | Some None \<Rightarrow> Inl RetryDelayError
      | Some (Some v) \<Rightarrow>
          if v < 1000 then Inl RetryDelayError
          else Inr (c\<lparr>connectionOptions := (connectionOptions c)\<lparr>co_retryDelay := Some v\<rparr>,
                      retryDelay := v\<rparr>))"

definition set_pingTimeout :: "int option option \<Rightarrow> 'h client \<Rightarrow> error + 'h client" where
  "set_pingTimeout pt c =
     (case pt of
        None \<Rightarrow> Inr c
      | Some None \<Rightarrow> Inl PingTimeoutError
      | Some (Some v) \<Rightarrow>
          if v < 1000 then Inl PingTimeoutError
          else Inr (c\<lparr>connectionOptions := (connectionOptions c)\<lparr>co_pingTimeout := Some v\<rparr>\<rparr>))"

definition parse_options :: "options \<Rightarrow> 'h client \<Rightarrow> error + 'h client" where
  "parse_options opts c =
     (let c1 = (if o_globalListener opts = JBool True then c\<lparr>globalListener := True\<rparr> else c);
          c2 = (case o_sessionId opts of
                  None \<Rightarrow> c1
                | Some s \<Rightarrow> if trim s \<noteq> [] then c1\<lparr>sessionId := JStr (trim s)\<rparr> else c1);
          c3 = (case o_apiKey opts of
                  None \<Rightarrow> c2
                | Some k \<Rightarrow>
                    if k \<noteq> []
                    then c2\<lparr>connectionOptions := (connectionOptions c2)\<lparr>co_apiKey := Some k\<rparr>\<rparr>
                    else c2)
      in case set_retryCount (o_retryCount opts) c3 of
           Inl e \<Rightarrow> Inl e
         | Inr c4 \<Rightarrow>
             (case set_retryDelay (o_retryDelay opts) c4 of
                Inl e \<Rightarrow> Inl e
              | Inr c5 \<Rightarrow> set_pingTimeout (o_pingTimeout opts) c5))"

text \<open>
  The store before any \<^verbatim>\<open>new WebSocketConnection\<close>: every address holds an object that
  is not made yet, which has made no attempt and sent nothing.
\<close>

definition no_conns :: "nat \<Rightarrow> transport" where
  "no_conns = (\<lambda>k. new_WebSocketConnection \<lparr>a_base = [], a_params = []\<rparr>
                     \<lparr>co_apiKey = None, co_retryCount = None, co_retryDelay = None,
                      co_pingTimeout = None\<rparr>)"

text \<open>The fields as the constructor sets them before it looks at the query and the options.\<close>

definition initial_client :: "url \<Rightarrow> 'h client" where
  "initial_client u =
     \<lparr>uri = (case protocol u of Some pr \<Rightarrow> pr | None \<Rightarrow> []) @ ''//'' @ host u @
             (case pathname u of Some pn \<Rightarrow> pn | None \<Rightarrow> ''/''),
      queryParams = [],
      sessionId = JNull,
      globalListener = False,
      retryDelay = RETRY_DELAY,
      connectionOptions = \<lparr>co_apiKey = None, co_retryCount = None,
                            co_retryDelay = None, co_pingTimeout = None\<rparr>,
      connectionCounter = 0,
      connection = None,
      connectedTimestamp = None,
      readyTimestamp = None,
      nextCommandId = 1,
      callbacks = Map.empty,
      queue = [],
      conns = no_conns,
      timers = []\<rparr>"

definition parse_query :: "url \<Rightarrow> 'h client \<Rightarrow> 'h client" where
  "parse_query u c = (case query u of None \<Rightarrow> c | Some hash \<Rightarrow> fold query_each hash c)"

definition autoConnect :: "options option \<Rightarrow> bool" where
  "autoConnect opts = (case opts of None \<Rightarrow> True | Some os \<Rightarrow> o_autoConnect os \<noteq> JBool False)"

definition constructor :: "url \<Rightarrow> options option \<Rightarrow> error + 'h client" where
  "constructor u opts =
     (if protocol u \<noteq> Some ''ws:'' \<and> protocol u \<noteq> Some ''wss:'' then Inl UriError
      else
        case (case opts of
                None \<Rightarrow> Inr (parse_query u (initial_client u))
              | Some os \<Rightarrow> parse_options os (parse_query u (initial_client u))) of
          Inl e \<Rightarrow> Inl e
        | Inr c \<Rightarrow> Inr (if autoConnect opts then connect c else c))"

section \<open>Runs of a client\<close>

text \<open>
  What can happen to a client: a call of one of its methods by the caller, a signal of
  one of its connection objects (named by the address of the object), or a timer that
  fires. A signal reaches the handlers that \<^verbatim>\<open>_createConnection\<close> registered on that
  object, whether or not the object is still \<^verbatim>\<open>this._connection\<close>.

  Modelled from the spec: when the missing transport raises its signals. \<open>SigConnected\<close>
  ends an attempt in flight (Connecting \<rightarrow> Open); \<open>SigMessage\<close> needs an open connection;
  \<open>SigDisconnected\<close> is the unexpected close, or the keepalive timeout that is "treated
  identically" (Open \<rightarrow> closed); \<open>SigConnectionError\<close> is a failed attempt, classified by
  \<open>t_fail\<close>; \<open>RetryElapsed\<close> is the transport's own retry delay (Backoff \<rightarrow> Connecting).
  A signal that the state of its object rules out does not happen: the step leaves the
  client as it is.
\<close>

datatype 'h event =
    Connect
  | Reconnect
  | Disconnect
  | Execute string jsval "'h option"
  | SigConnected nat
  | SigMessage nat "jsval option"
  | SigDisconnected nat jsval jsval
  | SigConnectionError nat jsval bool
  | RetryElapsed nat
  | TimerFired nat

definition set_state :: "nat \<Rightarrow> tstate \<Rightarrow> 'h client \<Rightarrow> 'h client" where
  "set_state k st c = c\<lparr>conns := (conns c)(k := (conns c k)\<lparr>t_state := st\<rparr>)\<rparr>"

fun step :: "nat \<Rightarrow> 'h event \<Rightarrow> 'h client \<Rightarrow> 'h client \<times> 'h emitted list" where
  "step now Connect c = (connect c, [])"
| "step now Reconnect c = (reconnect c, [])"
| "step now Disconnect c = (disconnect c, [])"
| "step now (Execute command params cb) c = (execute command params cb c, [])"
| "step now (SigConnected k) c =
     (if t_state (conns c k) = TConnecting then on_connected k now (set_state k TOpen c)
      else (c, []))"
| "step now (SigMessage k message) c =
     (if t_state (conns c k) = TOpen then processMessage now message c else (c, []))"
| "step now (SigDisconnected k code reason) c =
     (if t_state (conns c k) = TOpen then on_disconnected k code reason (set_state k TClosed c)
      else (c, []))"
| "step now (SigConnectionError k err retryable) c =
     (if t_state (conns c k) = TConnecting
      then on_connectionError k (snd (t_fail err retryable (conns c k)))
             (c\<lparr>conns := (conns c)(k := fst (t_fail err retryable (conns c k)))\<rparr>)
      else (c, []))"
| "step now (RetryElapsed k) c =
     (if t_state (conns c k) = TBackoff then (set_state k TConnecting c, []) else (c, []))"
| "step now (TimerFired k) c =
     (if k \<in> set (timers c) then (timer_callback k (c\<lparr>timers := remove1 k (timers c)\<rparr>), [])
      else (c, []))"

text \<open>A run: the events in order, each with the time at which it happens.\<close>

fun run :: "(nat \<times> 'h event) list \<Rightarrow> 'h client \<Rightarrow> 'h client \<times> 'h emitted list" where
  "run [] c = (c, [])"
| "run (e # es) c =
     (let r1 = step (fst e) (snd e) c;
          r2 = run es (fst r1)
      in (fst r2, snd r1 @ snd r2))"

text \<open>The connection objects that are open, among the ones made so far.\<close>

definition open_connections :: "'h client \<Rightarrow> nat list" where
  "open_connections c =
     filter (\<lambda>k. t_state (conns c k) = TOpen) [1 ..< Suc (connectionCounter c)]"

section \<open>Invariants\<close>

text \<open>No callback is pending under an id that \<^verbatim>\<open>execute\<close> has not given out yet.\<close>

definition pending_below :: "'h client \<Rightarrow> bool" where
  "pending_below c = (\<forall>k. nextCommandId c \<le> k \<longrightarrow> callbacks c k = None)"

text \<open>
  The keys of \<^verbatim>\<open>this._queryParams\<close> are those of an object, each once, and \<^verbatim>\<open>sid\<close> is
  not among them (the constructor keeps it in \<^verbatim>\<open>this._sessionId\<close>).
\<close>

definition query_keys_ok :: "'h client \<Rightarrow> bool" where
  "query_keys_ok c =
     (distinct (map fst (queryParams c)) \<and> ''sid'' \<notin> set (map fst (queryParams c)))"

text \<open>A session that was ready has an identifier that is not \<^verbatim>\<open>null\<close>.\<close>

definition ready_has_sid :: "'h client \<Rightarrow> bool" where
  "ready_has_sid c = (readyTimestamp c = None \<or> sessionId c \<noteq> JNull)"

text \<open>
  An event is \<open>sid_given\<close> unless it is a message whose handshake carries \<^verbatim>\<open>sid: null\<close>.
  The wire format has \<^verbatim>\<open>{hello: {sid: sessionId, isNew: bool}}\<close> with a string for the
  identifier, so every message of a server that follows the protocol is \<open>sid_given\<close>.
\<close>

fun sid_given :: "'h event \<Rightarrow> bool" where
  "sid_given (SigMessage k (Some data)) = (js_get (js_get data ''hello'') ''sid'' \<noteq> JNull)"
| "sid_given _ = True"



section \<open>Example inputs\<close>

text \<open>
  Concrete inputs on which the theorems below are evaluated. \<open>idle_client\<close> is what
  \<^verbatim>\<open>new Client('ws://127.0.0.1:8001', {autoConnect: false})\<close> builds, with callbacks
  named by numbers.
\<close>

definition example_url :: url where
  "example_url =
     \<lparr>protocol = Some ''ws:'', host = ''127.0.0.1:8001'', pathname = None, query = None\<rparr>"

definition no_autoConnect :: options where
  "no_autoConnect =
     \<lparr>o_autoConnect = JBool False, o_globalListener = JUndefined, o_sessionId = None,
      o_apiKey = None, o_retryCount = None, o_retryDelay = None, o_pingTimeout = None\<rparr>"

definition idle_client :: "nat client" where
  "idle_client =
     \<lparr>uri = ''ws://127.0.0.1:8001/'', queryParams = [], sessionId = JNull,
      globalListener = False, retryDelay = 10000,
      connectionOptions = \<lparr>co_apiKey = None, co_retryCount = None, co_retryDelay = None,
                            co_pingTimeout = None\<rparr>,
      connectionCounter = 0, connection = None, connectedTimestamp = None,
      readyTimestamp = None, nextCommandId = 1, callbacks = Map.empty, queue = [],
      conns = no_conns, timers = []\<rparr>"

definition open_client :: "nat client" where
  "open_client = fst (step 1 (SigConnected 1) (connect idle_client))"

definition hello_new :: jsval where
  "hello_new = JObj [(''hello'', JObj [(''sid'', JStr ''rpc.1''), (''isNew'', JBool True)])]"

definition ready_client :: "nat client" where
  "ready_client = fst (step 2 (SigMessage 1 (Some hello_new)) open_client)"

definition getPairs :: frame where
  "getPairs = \<lparr>f_m = ''getPairs'', f_p = None, f_i = None\<rparr>"

definition subscribe :: frame where
  "subscribe = \<lparr>f_m = ''subscribeToTickers'', f_p = None, f_i = None\<rparr>"

definition result_1 :: jsval where
  "result_1 = JObj [(''i'', JNum 1), (''r'', JStr ''ok'')]"

text \<open>
  The options \<^verbatim>\<open>{retryCount: 2, retryDelay: 1000}\<close>, the client that the constructor
  builds with them, and three attempts of connection 1 that fail, the transport's retry
  delay elapsing in between.
\<close>

definition retry_twice :: options where
  "retry_twice =
     \<lparr>o_autoConnect = JUndefined, o_globalListener = JUndefined, o_sessionId = None,
      o_apiKey = None, o_retryCount = Some (Parsed (Some 2)),
      o_retryDelay = Some (Some 1000), o_pingTimeout = None\<rparr>"

definition retry_client :: "nat client" where
  "retry_client =
     connect ((initial_client example_url)
                \<lparr>connectionOptions := \<lparr>co_apiKey = None, co_retryCount = Some 2,
                                        co_retryDelay = Some 1000, co_pingTimeout = None\<rparr>,
                 retryDelay := 1000\<rparr>)"

definition failures_trace :: "(nat \<times> nat event) list" where
  "failures_trace =
     [(1, SigConnectionError 1 (JStr ''ECONNREFUSED'') True), (2, RetryElapsed 1),
      (3, SigConnectionError 1 (JStr ''ECONNREFUSED'') True), (4, RetryElapsed 1),
      (5, SigConnectionError 1 (JStr ''ECONNREFUSED'') True)]"

text \<open>
  \<open>auto_client\<close> is what \<^verbatim>\<open>new Client('ws://127.0.0.1:8001')\<close> builds. In the trace,
  connection 1 opens and is closed by the peer, so that connection 2 waits for its timer;
  the caller disconnects and connects again (connection 3) before the timer fires; then
  the timer fires, and the transport signals \<^verbatim>\<open>connected\<close> for connection 3 and, if it
  can, for connection 2.
\<close>

definition auto_client :: "nat client" where
  "auto_client = connect (initial_client example_url)"

definition race_trace :: "(nat \<times> nat event) list" where
  "race_trace =
     [(1, SigConnected 1), (2, SigDisconnected 1 (JNum 1006) (JStr [])),
      (3, Disconnect), (4, Connect), (5, TimerFired 2),
      (6, SigConnected 3), (7, SigConnected 2)]"

text \<open>
  \<^verbatim>\<open>new Client('ws://127.0.0.1:8001/?expires=true&timeout=600&x=1')\<close>, and its first
  connection opening and receiving the handshake of a new session.
\<close>

definition session_url :: url where
  "session_url =
     \<lparr>protocol = Some ''ws:'', host = ''127.0.0.1:8001'', pathname = Some ''/'',
      query = Some [(''expires'', JStr ''true''), (''timeout'', JStr ''600''),
                    (''x'', JStr ''1'')]\<rparr>"

definition session_client :: "nat client" where
  "session_client = connect (parse_query session_url (initial_client session_url))"

definition handshake_trace :: "(nat \<times> nat event) list" where
  "handshake_trace = [(1, SigConnected 1), (2, SigMessage 1 (Some hello_new))]"

text \<open>
  A frame with a member \<^verbatim>\<open>hello\<close> that is no handshake, a handshake with \<^verbatim>\<open>sid: null\<close>
  and the run in which it is the first message, and listeners of \<^verbatim>\<open>ready\<close>: one that
  calls \<^verbatim>\<open>execute('subscribeToTickers')\<close>, one that throws.
\<close>

definition hello_5 :: jsval where
  "hello_5 = JObj [(''hello'', JNum 5)]"

definition hello_null_sid :: jsval where
  "hello_null_sid = JObj [(''hello'', JObj [(''sid'', JNull), (''isNew'', JBool True)])]"

definition null_sid_trace :: "(nat \<times> nat event) list" where
  "null_sid_trace = [(1, SigConnected 1), (2, SigMessage 1 (Some hello_null_sid))]"

definition subscribing :: "nat listener" where
  "subscribing = \<lparr>l_calls = [(''subscribeToTickers'', JUndefined, None)], l_throws = False\<rparr>"

definition throwing :: "nat listener" where
  "throwing = \<lparr>l_calls = [], l_throws = True\<rparr>"

section \<open>Basic facts\<close>

lemma queueMessages_eq: "queueMessages list c = c\<lparr>queue := queue c @ list\<rparr>"
  by (induction list arbitrary: c) simp_all

lemma send_all_eq: "send_all list t = t\<lparr>t_sent := t_sent t @ list\<rparr>"
  by (induction list arbitrary: t) (simp_all add: t_send_def)

lemma createConnection_fields [simp]:
  "readyTimestamp (createConnection d c) = readyTimestamp c"
  "nextCommandId (createConnection d c) = nextCommandId c"
  "callbacks (createConnection d c) = callbacks c"
  "queryParams (createConnection d c) = queryParams c"
  "queue (createConnection d c) = queue c"
  "sessionId (createConnection d c) = sessionId c"
  "connectionCounter (createConnection d c) = Suc (connectionCounter c)"
  "connection (createConnection d c) = Some (Suc (connectionCounter c))"
  by (simp_all add: createConnection_def Let_def split: option.splits)

lemma connect_fields [simp]:
  "readyTimestamp (connect c) = readyTimestamp c"
  "nextCommandId (connect c) = nextCommandId c"
  "callbacks (connect c) = callbacks c"
  "queryParams (connect c) = queryParams c"
  "queue (connect c) = queue c"
  "sessionId (connect c) = sessionId c"
  by (simp_all add: connect_def)

lemma reconnect_fields [simp]:
  "readyTimestamp (reconnect c) = readyTimestamp c"
  "nextCommandId (reconnect c) = nextCommandId c"
  "callbacks (reconnect c) = callbacks c"
  "queryParams (reconnect c) = queryParams c"
  "queue (reconnect c) = queue c"
  "sessionId (reconnect c) = sessionId c"
  by (simp_all add: reconnect_def split: option.splits)

lemma disconnect_fields [simp]:
  "readyTimestamp (disconnect c) = readyTimestamp c"
  "nextCommandId (disconnect c) = nextCommandId c"
  "callbacks (disconnect c) = callbacks c"
  "queryParams (disconnect c) = queryParams c"
  "queue (disconnect c) = queue c"
  "sessionId (disconnect c) = sessionId c"
  by (simp_all add: disconnect_def split: option.splits)

lemma timer_callback_fields [simp]:
  "readyTimestamp (timer_callback k c) = readyTimestamp c"
  "nextCommandId (timer_callback k c) = nextCommandId c"
  "callbacks (timer_callback k c) = callbacks c"
  "queryParams (timer_callback k c) = queryParams c"
  "queue (timer_callback k c) = queue c"
  "sessionId (timer_callback k c) = sessionId c"
  by (simp_all add: timer_callback_def)

lemma set_state_fields [simp]:
  "readyTimestamp (set_state k st c) = readyTimestamp c"
  "nextCommandId (set_state k st c) = nextCommandId c"
  "callbacks (set_state k st c) = callbacks c"
  "queryParams (set_state k st c) = queryParams c"
  "queue (set_state k st c) = queue c"
  "sessionId (set_state k st c) = sessionId c"
  "connection (set_state k st c) = connection c"
  "connectionCounter (set_state k st c) = connectionCounter c"
  by (simp_all add: set_state_def)

lemma send_fields [simp]:
  "readyTimestamp (send list c) = readyTimestamp c"
  "nextCommandId (send list c) = nextCommandId c"
  "callbacks (send list c) = callbacks c"
  "queryParams (send list c) = queryParams c"
  "sessionId (send list c) = sessionId c"
  by (simp_all add: send_def queueMessages_eq split: option.splits)

lemma execute_fields [simp]:
  "readyTimestamp (execute cmd ps cb c) = readyTimestamp c"
  "queryParams (execute cmd ps cb c) = queryParams c"
  "sessionId (execute cmd ps cb c) = sessionId c"
  by (simp_all add: execute_def Let_def split: option.splits)

lemma processQueue_fields [simp]:
  "readyTimestamp (processQueue c) = readyTimestamp c"
  "nextCommandId (processQueue c) = nextCommandId c"
  "callbacks (processQueue c) = callbacks c"
  "queryParams (processQueue c) = queryParams c"
  "sessionId (processQueue c) = sessionId c"
  "connection (processQueue c) = connection c"
  by (simp_all add: processQueue_def split: option.splits)

lemma processResultMessage_fields [simp]:
  "readyTimestamp (fst (processResultMessage data c)) = readyTimestamp c"
  "nextCommandId (fst (processResultMessage data c)) = nextCommandId c"
  "queryParams (fst (processResultMessage data c)) = queryParams c"
  "sessionId (fst (processResultMessage data c)) = sessionId c"
  "queue (fst (processResultMessage data c)) = queue c"
  by (simp_all add: processResultMessage_def split: lookup.splits)

lemma processErrorMessage_fields [simp]:
  "readyTimestamp (fst (processErrorMessage data c)) = readyTimestamp c"
  "nextCommandId (fst (processErrorMessage data c)) = nextCommandId c"
  "queryParams (fst (processErrorMessage data c)) = queryParams c"
  "sessionId (fst (processErrorMessage data c)) = sessionId c"
  "queue (fst (processErrorMessage data c)) = queue c"
  by (simp_all add: processErrorMessage_def split: lookup.splits)

lemma processNotificationMessage_state [simp]:
  "fst (processNotificationMessage data c) = c"
  by (simp add: processNotificationMessage_def split: jsval.splits)

lemma processMessage_readyTimestamp:
  "readyTimestamp c \<noteq> None \<Longrightarrow> readyTimestamp (fst (processMessage now message c)) \<noteq> None"
  by (cases message) (auto simp: processMessage_def Let_def)

lemma processMessage_fields [simp]:
  "nextCommandId (fst (processMessage now message c)) = nextCommandId c"
  "queryParams (fst (processMessage now message c)) = queryParams c"
  by (simp_all add: processMessage_def Let_def split: option.splits)

lemma on_fields [simp]:
  "readyTimestamp (fst (on_connected k now c)) = readyTimestamp c"
  "nextCommandId (fst (on_connected k now c)) = nextCommandId c"
  "callbacks (fst (on_connected k now c)) = callbacks c"
  "queryParams (fst (on_connected k now c)) = queryParams c"
  "sessionId (fst (on_connected k now c)) = sessionId c"
  "readyTimestamp (fst (on_disconnected k code reason c)) = readyTimestamp c"
  "nextCommandId (fst (on_disconnected k code reason c)) = nextCommandId c"
  "callbacks (fst (on_disconnected k code reason c)) = callbacks c"
  "queryParams (fst (on_disconnected k code reason c)) = queryParams c"
  "sessionId (fst (on_disconnected k code reason c)) = sessionId c"
  "fst (on_connectionError k err c) = c"
  by (simp_all add: on_connected_def on_disconnected_def on_connectionError_def)

lemma step_readyTimestamp:
  "readyTimestamp c \<noteq> None \<Longrightarrow> readyTimestamp (fst (step now ev c)) \<noteq> None"
  using processMessage_readyTimestamp [of c] by (cases ev) auto

lemma step_nextCommandId:
  "nextCommandId c \<le> nextCommandId (fst (step now ev c))"
  by (cases ev) (simp_all add: execute_def Let_def split: option.splits)

lemma step_queryParams:
  "queryParams (fst (step now ev c)) = queryParams c"
  by (cases ev) simp_all

section \<open>Claims about messages and the send path\<close>




lemmas eval_defs = constructor_def initial_client_def parse_query_def autoConnect_def
  example_url_def connect_def reconnect_def disconnect_def
  createConnection_def timer_callback_def new_WebSocketConnection_def t_connect_def
  t_disconnect_def t_isConnected_def set_state_def getUri_def no_conns_def RETRY_DELAY_def
  on_connected_def on_disconnected_def on_connectionError_def t_fail_def retry_limit_def
  parse_options_def set_retryCount_def set_retryDelay_def set_pingTimeout_def
  open_connections_def Let_def

lemmas example_defs = idle_client_def open_client_def ready_client_def hello_new_def
  getPairs_def subscribe_def result_1_def no_autoConnect_def session_url_def
  session_client_def handshake_trace_def retry_twice_def failures_trace_def race_trace_def
  retry_client_def auto_client_def hello_5_def hello_null_sid_def
  null_sid_trace_def subscribing_def throwing_def

lemma idle_client_constructed: "constructor example_url (Some no_autoConnect) = Inr idle_client"
  by (simp add: eval_defs example_defs)

text \<open>
  Claim C2. For a handshake frame \<^verbatim>\<open>{hello: {sid, isNew}}\<close>: when the session was never
  ready, \<^verbatim>\<open>ready\<close> is emitted (once) and the ready time is set; when it was ready and
  \<^verbatim>\<open>isNew\<close> is \<^verbatim>\<open>false\<close>, nothing is emitted and the ready time stays; when \<^verbatim>\<open>isNew\<close> is
  \<^verbatim>\<open>true\<close>, \<^verbatim>\<open>ready\<close> is emitted whether or not the session was ready.
\<close>

theorem handshake_ready_observable:
  assumes "js_get data ''hello'' = JObj h"
  shows "(readyTimestamp c = None \<longrightarrow>
            snd (processMessage now (Some data) c) = [Ready (js_get (JObj h) ''sid'') (js_get (JObj h) ''isNew'')]
          \<and> readyTimestamp (fst (processMessage now (Some data) c)) = Some now)
       \<and> (readyTimestamp c \<noteq> None \<and> js_get (JObj h) ''isNew'' = JBool False \<longrightarrow>
            snd (processMessage now (Some data) c) = []
          \<and> readyTimestamp (fst (processMessage now (Some data) c)) = readyTimestamp c)
       \<and> (js_get (JObj h) ''isNew'' = JBool True \<longrightarrow>
            snd (processMessage now (Some data) c) = [Ready (js_get (JObj h) ''sid'') (JBool True)]
          \<and> readyTimestamp (fst (processMessage now (Some data) c)) = Some now)"
proof -
  have "\<not> nullish data"
    using assms by (cases data) (simp_all add: nullish_def)
  then show ?thesis
    using assms by (simp add: processMessage_def Let_def nullish_def)
qed

theorem handshake_ready_observable_witness:
  "js_get hello_new ''hello'' = JObj [(''sid'', JStr ''rpc.1''), (''isNew'', JBool True)]
   \<and> readyTimestamp open_client = None
   \<and> snd (processMessage 2 (Some hello_new) open_client) = [Ready (JStr ''rpc.1'') (JBool True)]
   \<and> readyTimestamp (fst (processMessage 2 (Some hello_new) open_client)) = Some 2"
proof -
  have h: "js_get hello_new ''hello'' = JObj [(''sid'', JStr ''rpc.1''), (''isNew'', JBool True)]"
    by (simp add: hello_new_def)
  have r: "readyTimestamp open_client = None"
    by (simp add: eval_defs example_defs)
  show ?thesis
    using handshake_ready_observable [OF h, of open_client 2] h r by simp
qed

text \<open>
  Claim C3. A call of \<^verbatim>\<open>_send\<close> with a list that is not empty appends the list to the
  queue if and only if there is no connection, or the connection is not connected, or
  the session was never ready. In that case no connection object is handed a frame (the
  only object that changes is the one \<^verbatim>\<open>_send\<close> creates when there was none, which has
  sent nothing). Otherwise the queue stays as it is and the frames go to the current
  connection at once, in order, and to no other.
\<close>

theorem send_buffers_or_transmits:
  assumes "list \<noteq> []"
  shows "(queue (send list c) = queue c @ list
            \<longleftrightarrow> connection c = None \<or> \<not> isConnected c \<or> \<not> isReady c)
       \<and> (connection c = None \<or> \<not> isConnected c \<or> \<not> isReady c \<longrightarrow>
            (\<forall>k. conns (send list c) k = conns c k
                 \<or> (connection c = None \<and> k = Suc (connectionCounter c)
                     \<and> t_sent (conns (send list c) k) = [])))
       \<and> (\<not> (connection c = None \<or> \<not> isConnected c \<or> \<not> isReady c) \<longrightarrow>
            (\<exists>k. connection c = Some k \<and> queue (send list c) = queue c
                 \<and> t_sent (conns (send list c) k) = t_sent (conns c k) @ list
                 \<and> (\<forall>j. j \<noteq> k \<longrightarrow> conns (send list c) j = conns c j)))"
  using assms
  by (cases "connection c")
     (auto simp: send_def queueMessages_eq send_all_eq isConnected_def isReady_def
                 createConnection_def new_WebSocketConnection_def t_connect_def Let_def)

theorem send_buffers_or_transmits_witness:
  "[getPairs] \<noteq> [] \<and> connection idle_client = None
   \<and> queue (send [getPairs] idle_client) = queue idle_client @ [getPairs]
   \<and> isConnected ready_client \<and> isReady ready_client
   \<and> queue (send [getPairs] ready_client) = queue ready_client
   \<and> t_sent (conns (send [getPairs] ready_client) 1) = t_sent (conns ready_client 1) @ [getPairs]"
proof -
  have a: "connection idle_client = None"
    by (simp add: idle_client_def)
  have b: "connection ready_client = Some 1 \<and> isConnected ready_client \<and> isReady ready_client"
    by (simp add: eval_defs example_defs isConnected_def isReady_def processMessage_def
                  nullish_def processQueue_def)
  show ?thesis
    using send_buffers_or_transmits [of "[getPairs]" idle_client] send_buffers_or_transmits [of "[getPairs]" ready_client] a b by auto
qed

text \<open>
  Claim C6. After the session is ready, for a result frame (\<^verbatim>\<open>r\<close> present) and for an
  error frame (\<^verbatim>\<open>e\<close> present, \<^verbatim>\<open>r\<close> absent), neither of them a handshake or a
  notification: when a callback is pending under the id \<^verbatim>\<open>i\<close>, it is removed and called
  once, with \<^verbatim>\<open>(r, null)\<close> or \<^verbatim>\<open>(null, e)\<close>, and nothing else changes; when none is
  pending, the client stays as it is and nothing is emitted.
\<close>

theorem reply_dispatch_once:
  assumes "readyTimestamp c \<noteq> None"
    and "js_get data ''hello'' = JUndefined" and "js_get data ''n'' = JUndefined"
  shows "(js_get data ''r'' \<noteq> JUndefined \<longrightarrow>
           (\<forall>k cb. key_of (js_get data ''i'') = IntKey k \<and> callbacks c k = Some cb \<longrightarrow>
              processMessage now (Some data) c =
                (c\<lparr>callbacks := (callbacks c)(k := None)\<rparr>, [Callback cb (js_get data ''r'') JNull]))
         \<and> ((\<nexists>k cb. key_of (js_get data ''i'') = IntKey k \<and> callbacks c k = Some cb) \<longrightarrow>
              processMessage now (Some data) c = (c, [])))
       \<and> (js_get data ''r'' = JUndefined \<and> js_get data ''e'' \<noteq> JUndefined \<longrightarrow>
           (\<forall>k cb. key_of (js_get data ''i'') = IntKey k \<and> callbacks c k = Some cb \<longrightarrow>
              processMessage now (Some data) c =
                (c\<lparr>callbacks := (callbacks c)(k := None)\<rparr>, [Callback cb JNull (js_get data ''e'')]))
         \<and> ((\<nexists>k cb. key_of (js_get data ''i'') = IntKey k \<and> callbacks c k = Some cb) \<longrightarrow>
              processMessage now (Some data) c = (c, [])))"
proof -
  have nn: "js_get data ''r'' \<noteq> JUndefined \<or> js_get data ''e'' \<noteq> JUndefined \<Longrightarrow> \<not> nullish data"
    by (cases data) (simp_all add: nullish_def)
  show ?thesis
    using assms nn
    by (auto simp: processMessage_def processResultMessage_def processErrorMessage_def
                   callbacks_get_def split: prop_key.splits option.splits)
qed

theorem reply_dispatch_once_witness:
  "readyTimestamp (execute ''getPairs'' JUndefined (Some 7) ready_client) \<noteq> None
   \<and> js_get result_1 ''hello'' = JUndefined \<and> js_get result_1 ''n'' = JUndefined
   \<and> js_get result_1 ''r'' \<noteq> JUndefined
   \<and> key_of (js_get result_1 ''i'') = IntKey 1
   \<and> callbacks (execute ''getPairs'' JUndefined (Some 7) ready_client) 1 = Some 7
   \<and> snd (processMessage 3 (Some result_1) (execute ''getPairs'' JUndefined (Some 7) ready_client))
       = [Callback 7 (JStr ''ok'') JNull]
   \<and> callbacks (fst (processMessage 3 (Some result_1)
                  (execute ''getPairs'' JUndefined (Some 7) ready_client))) 1 = None
   \<and> processMessage 4 (Some result_1) (fst (processMessage 3 (Some result_1)
                  (execute ''getPairs'' JUndefined (Some 7) ready_client)))
       = (fst (processMessage 3 (Some result_1)
                  (execute ''getPairs'' JUndefined (Some 7) ready_client)), [])"
proof -
  let ?c = "execute ''getPairs'' JUndefined (Some 7) ready_client"
  let ?c' = "fst (processMessage 3 (Some result_1) ?c)"
  have r: "readyTimestamp ready_client \<noteq> None \<and> nextCommandId ready_client = 1"
    by (simp add: eval_defs example_defs processMessage_def nullish_def processQueue_def)
  have r1: "readyTimestamp ?c \<noteq> None"
    using r by simp
  have d: "js_get result_1 ''hello'' = JUndefined" "js_get result_1 ''n'' = JUndefined"
    "js_get result_1 ''r'' = JStr ''ok''" "key_of (js_get result_1 ''i'') = IntKey 1"
    by (simp_all add: result_1_def)
  have cb: "callbacks ?c 1 = Some 7"
    using r by (simp add: execute_def Let_def)
  have first: "processMessage 3 (Some result_1) ?c
       = (?c\<lparr>callbacks := (callbacks ?c)(1 := None)\<rparr>, [Callback 7 (JStr ''ok'') JNull])"
    using reply_dispatch_once [OF r1 d(1) d(2), of 3] d cb by simp
  have r2: "readyTimestamp ?c' \<noteq> None"
    using r1 by (simp add: first)
  have none: "\<nexists>k cb. key_of (js_get result_1 ''i'') = IntKey k \<and> callbacks ?c' k = Some cb"
    by (simp add: first d)
  have second: "processMessage 4 (Some result_1) ?c' = (?c', [])"
    using reply_dispatch_once [OF r2 d(1) d(2), of 4] d none by simp
  show ?thesis
    using r1 d cb first second by simp
qed

section \<open>Facts about runs and the constructor\<close>

lemma step_isReady: "isReady c \<Longrightarrow> isReady (fst (step now ev c))"
  unfolding isReady_def by (rule step_readyTimestamp)

lemma run_isReady: "isReady c \<Longrightarrow> isReady (fst (run evs c))"
  by (induction evs arbitrary: c) (simp_all add: Let_def step_isReady)

lemma run_nextCommandId: "nextCommandId c \<le> nextCommandId (fst (run evs c))"
proof (induction evs arbitrary: c)
  case Nil
  then show ?case by simp
next
  case (Cons e es)
  have "nextCommandId c \<le> nextCommandId (fst (step (fst e) (snd e) c))"
    by (rule step_nextCommandId)
  also have "\<dots> \<le> nextCommandId (fst (run es (fst (step (fst e) (snd e) c))))"
    by (rule Cons.IH)
  finally show ?case by (simp add: Let_def)
qed

lemma run_queryParams: "queryParams (fst (run evs c)) = queryParams c"
  by (induction evs arbitrary: c) (simp_all add: Let_def step_queryParams)

lemma processMessage_callbacks:
  "callbacks (fst (processMessage now message c)) k = None \<or>
   callbacks (fst (processMessage now message c)) k = callbacks c k"
  by (cases message)
     (auto simp: processMessage_def processResultMessage_def processErrorMessage_def Let_def
           split: lookup.splits)

lemma processMessage_pending_below:
  "pending_below c \<Longrightarrow> pending_below (fst (processMessage now message c))"
  unfolding pending_below_def
  using processMessage_callbacks [of now message c] by (metis processMessage_fields(1))

lemma execute_pending_below:
  "pending_below c \<Longrightarrow> pending_below (execute cmd ps cb c)"
  unfolding pending_below_def by (cases cb) (simp_all add: execute_def Let_def)

lemma pending_below_cong:
  "nextCommandId c' = nextCommandId c \<Longrightarrow> callbacks c' = callbacks c \<Longrightarrow>
   pending_below c \<Longrightarrow> pending_below c'"
  by (simp add: pending_below_def)

lemma step_pending_below:
  assumes "pending_below c"
  shows "pending_below (fst (step now ev c))"
proof (cases ev)
  case (SigMessage j message)
  then show ?thesis using assms by (simp add: processMessage_pending_below)
next
  case (Execute cmd ps cb)
  then show ?thesis using assms by (simp add: execute_pending_below)
qed (use assms in \<open>auto intro: pending_below_cong [of _ c]\<close>)

lemma run_pending_below: "pending_below c \<Longrightarrow> pending_below (fst (run evs c))"
  by (induction evs arbitrary: c) (simp_all add: Let_def step_pending_below)

lemma query_each_fields [simp]:
  "nextCommandId (query_each kv c) = nextCommandId c"
  "callbacks (query_each kv c) = callbacks c"
  "readyTimestamp (query_each kv c) = readyTimestamp c"
  by (simp_all add: query_each_def)

lemma update_key_set: "fst ` set (AList.update k v al) = insert k (fst ` set al)"
  using dom_update [of k v al] by (simp add: dom_map_of_conv_image_fst)

lemma query_each_keys_ok: "query_keys_ok c \<Longrightarrow> query_keys_ok (query_each kv c)"
  by (simp add: query_each_def query_keys_ok_def distinct_update update_key_set)

lemma parse_query_fields [simp]:
  "nextCommandId (parse_query u c) = nextCommandId c"
  "callbacks (parse_query u c) = callbacks c"
  "readyTimestamp (parse_query u c) = readyTimestamp c"
proof -
  have "nextCommandId (fold query_each hash c) = nextCommandId c
        \<and> callbacks (fold query_each hash c) = callbacks c
        \<and> readyTimestamp (fold query_each hash c) = readyTimestamp c" for hash
    by (induction hash arbitrary: c) simp_all
  then show "nextCommandId (parse_query u c) = nextCommandId c"
    "callbacks (parse_query u c) = callbacks c"
    "readyTimestamp (parse_query u c) = readyTimestamp c"
    by (simp_all add: parse_query_def split: option.splits)
qed

lemma parse_query_keys_ok: "query_keys_ok c \<Longrightarrow> query_keys_ok (parse_query u c)"
proof -
  have "query_keys_ok c \<Longrightarrow> query_keys_ok (fold query_each hash c)" for hash
    by (induction hash arbitrary: c) (simp_all add: query_each_keys_ok)
  then show "query_keys_ok c \<Longrightarrow> query_keys_ok (parse_query u c)"
    by (simp add: parse_query_def split: option.splits)
qed

lemma set_retryCount_fields:
  "set_retryCount rc c = Inr c' \<Longrightarrow>
   nextCommandId c' = nextCommandId c \<and> callbacks c' = callbacks c
   \<and> readyTimestamp c' = readyTimestamp c \<and> queryParams c' = queryParams c"
  by (auto simp: set_retryCount_def split: option.splits retry_count.splits if_splits)

lemma set_retryDelay_fields:
  "set_retryDelay rd c = Inr c' \<Longrightarrow>
   nextCommandId c' = nextCommandId c \<and> callbacks c' = callbacks c
   \<and> readyTimestamp c' = readyTimestamp c \<and> queryParams c' = queryParams c"
  by (auto simp: set_retryDelay_def split: option.splits if_splits)

lemma set_pingTimeout_fields:
  "set_pingTimeout pt c = Inr c' \<Longrightarrow>
   nextCommandId c' = nextCommandId c \<and> callbacks c' = callbacks c
   \<and> readyTimestamp c' = readyTimestamp c \<and> queryParams c' = queryParams c"
  by (auto simp: set_pingTimeout_def split: option.splits if_splits)

lemma parse_options_fields:
  assumes "parse_options os c = Inr c'"
  shows "nextCommandId c' = nextCommandId c \<and> callbacks c' = callbacks c
         \<and> readyTimestamp c' = readyTimestamp c \<and> queryParams c' = queryParams c"
proof -
  define c3 where "c3 =
    (let c1 = (if o_globalListener os = JBool True then c\<lparr>globalListener := True\<rparr> else c);
          c2 = (case o_sessionId os of
                  None \<Rightarrow> c1
                | Some s \<Rightarrow> if trim s \<noteq> [] then c1\<lparr>sessionId := JStr (trim s)\<rparr> else c1)
     in (case o_apiKey os of
                  None \<Rightarrow> c2
                | Some k \<Rightarrow>
                    if k \<noteq> []
                    then c2\<lparr>connectionOptions := (connectionOptions c2)\<lparr>co_apiKey := Some k\<rparr>\<rparr>
                    else c2))"
  have f3: "nextCommandId c3 = nextCommandId c \<and> callbacks c3 = callbacks c
         \<and> readyTimestamp c3 = readyTimestamp c \<and> queryParams c3 = queryParams c"
    by (simp add: c3_def Let_def split: option.splits)
  obtain c4 c5 where s4: "set_retryCount (o_retryCount os) c3 = Inr c4"
    and s5: "set_retryDelay (o_retryDelay os) c4 = Inr c5"
    and s6: "set_pingTimeout (o_pingTimeout os) c5 = Inr c'"
    using assms by (auto simp: parse_options_def Let_def c3_def split: sum.splits)
  from f3 set_retryCount_fields [OF s4] set_retryDelay_fields [OF s5]
    set_pingTimeout_fields [OF s6]
  show ?thesis by simp
qed

lemma constructor_init:
  assumes "constructor u opts = Inr c"
  shows "nextCommandId c = 1 \<and> callbacks c = Map.empty \<and> readyTimestamp c = None
         \<and> query_keys_ok c"
proof -
  let ?c1 = "parse_query u (initial_client u) :: 'a client"
  have p1: "nextCommandId ?c1 = 1 \<and> callbacks ?c1 = Map.empty \<and> readyTimestamp ?c1 = None"
    by (simp add: initial_client_def)
  have "query_keys_ok (initial_client u :: 'a client)"
    by (simp add: query_keys_ok_def initial_client_def)
  then have k1: "query_keys_ok ?c1"
    by (rule parse_query_keys_ok)
  obtain c2 where c2: "(case opts of None \<Rightarrow> Inr ?c1 | Some os \<Rightarrow> parse_options os ?c1) = Inr c2"
    and c: "c = (if autoConnect opts then connect c2 else c2)"
    using assms by (auto simp: constructor_def split: if_splits sum.splits)
  have p2: "nextCommandId c2 = 1 \<and> callbacks c2 = Map.empty \<and> readyTimestamp c2 = None
            \<and> queryParams c2 = queryParams ?c1"
  proof (cases opts)
    case None
    then show ?thesis using c2 p1 by simp
  next
    case (Some os)
    then show ?thesis
      using c2 p1 parse_options_fields [of os ?c1 c2] by simp
  qed
  then have "query_keys_ok c2"
    using k1 by (simp add: query_keys_ok_def)
  then have "query_keys_ok c"
    by (simp add: c query_keys_ok_def)
  then show ?thesis
    using p2 by (simp add: c)
qed

section \<open>Claims about commands, addressing and readiness\<close>

text \<open>
  Claim C5. For a client that the constructor built and any run of it since: the counter
  of command ids starts at 1 and no run ever lowers it. \<^verbatim>\<open>execute\<close> with a callback puts
  the current value of the counter in the frame, advances the counter, and has stored the
  callback under that id in the state that it hands to \<^verbatim>\<open>_send\<close>; without a callback the
  frame has no id and nothing is stored. No callback is pending under the id about to be
  given out, since every pending id is below the counter: no id is given to two commands
  that wait for a reply at the same time. (The counter is a natural number here; the
  model does not reach the \<open>2 ^ 53\<close> commands after which a double stops counting.)
\<close>

theorem correlation_ids_fresh:
  assumes "constructor u opts = Inr c0" and "c = fst (run evs c0)"
  shows "nextCommandId c0 = 1
       \<and> nextCommandId c0 \<le> nextCommandId c
       \<and> nextCommandId c \<le> nextCommandId (fst (run evs' c))
       \<and> execute command params (Some cb) c =
           send [\<lparr>f_m = command, f_p = (if params \<noteq> JUndefined then Some params else None),
                  f_i = Some (nextCommandId c)\<rparr>]
             (c\<lparr>nextCommandId := Suc (nextCommandId c),
                callbacks := (callbacks c)(nextCommandId c \<mapsto> cb)\<rparr>)
       \<and> callbacks (execute command params (Some cb) c) (nextCommandId c) = Some cb
       \<and> execute command params None c =
           send [\<lparr>f_m = command, f_p = (if params \<noteq> JUndefined then Some params else None),
                  f_i = None\<rparr>] c
       \<and> callbacks c (nextCommandId c) = None
       \<and> (\<forall>k. callbacks c k \<noteq> None \<longrightarrow> k < nextCommandId c)"
proof -
  have i: "nextCommandId c0 = 1 \<and> callbacks c0 = Map.empty"
    using constructor_init [OF assms(1)] by simp
  then have "pending_below c0"
    by (simp add: pending_below_def)
  then have "pending_below c"
    unfolding assms(2) by (rule run_pending_below)
  then have p: "\<forall>k. nextCommandId c \<le> k \<longrightarrow> callbacks c k = None"
    by (simp add: pending_below_def)
  have m: "nextCommandId c0 \<le> nextCommandId c" "nextCommandId c \<le> nextCommandId (fst (run evs' c))"
    unfolding assms(2) by (rule run_nextCommandId)+
  have e: "execute command params (Some cb) c =
           send [\<lparr>f_m = command, f_p = (if params \<noteq> JUndefined then Some params else None),
                  f_i = Some (nextCommandId c)\<rparr>]
             (c\<lparr>nextCommandId := Suc (nextCommandId c),
                callbacks := (callbacks c)(nextCommandId c \<mapsto> cb)\<rparr>)"
    "execute command params None c =
           send [\<lparr>f_m = command, f_p = (if params \<noteq> JUndefined then Some params else None),
                  f_i = None\<rparr>] c"
    by (simp_all add: execute_def execute_message_def Let_def)
  have r: "callbacks (execute command params (Some cb) c) (nextCommandId c) = Some cb"
    by (simp add: e)
  have q: "\<forall>k. callbacks c k \<noteq> None \<longrightarrow> k < nextCommandId c"
    using p by (meson not_le)
  from i m e r p q show ?thesis by simp
qed

theorem correlation_ids_fresh_witness:
  "constructor example_url (Some no_autoConnect) = Inr idle_client
   \<and> nextCommandId idle_client = 1
   \<and> queue (execute ''getPairs'' JUndefined (Some 7) idle_client)
       = [\<lparr>f_m = ''getPairs'', f_p = None, f_i = Some 1\<rparr>]
   \<and> nextCommandId (execute ''getPairs'' JUndefined (Some 7) idle_client) = 2
   \<and> callbacks (execute ''getPairs'' JUndefined (Some 7) idle_client) 1 = Some 7
   \<and> callbacks (execute ''getPairs'' JUndefined (Some 7) idle_client) 2 = None
   \<and> queue (execute ''getPairs'' JUndefined None idle_client)
       = [\<lparr>f_m = ''getPairs'', f_p = None, f_i = None\<rparr>]"
proof -
  let ?c = "execute ''getPairs'' JUndefined (Some 7) idle_client"
  have n: "nextCommandId idle_client = 1" "connection idle_client = None" "queue idle_client = []"
    by (simp_all add: idle_client_def)
  have s: "?c = fst (run [(1, Execute ''getPairs'' JUndefined (Some 7))] idle_client)"
    by (simp add: Let_def)
  have n2: "nextCommandId ?c = 2"
    using n by (simp add: execute_def Let_def)
  have "callbacks ?c (nextCommandId ?c) = None"
    using correlation_ids_fresh [OF idle_client_constructed s] by blast
  then have a: "callbacks ?c 2 = None"
    by (simp only: n2)
  have b: "?c = send [\<lparr>f_m = ''getPairs'', f_p = None, f_i = Some 1\<rparr>]
             (idle_client\<lparr>nextCommandId := Suc 1, callbacks := (callbacks idle_client)(1 \<mapsto> 7)\<rparr>)"
    "execute ''getPairs'' JUndefined None idle_client
       = send [\<lparr>f_m = ''getPairs'', f_p = None, f_i = None\<rparr>] idle_client"
    "callbacks ?c 1 = Some 7"
    using correlation_ids_fresh [OF idle_client_constructed, of idle_client "[]" "[]" "''getPairs''" JUndefined 7] n
    by simp_all
  have q: "queue ?c = [\<lparr>f_m = ''getPairs'', f_p = None, f_i = Some 1\<rparr>]"
    "queue (execute ''getPairs'' JUndefined None idle_client)
       = [\<lparr>f_m = ''getPairs'', f_p = None, f_i = None\<rparr>]"
    unfolding b using n by (simp_all add: send_def queueMessages_eq)
  from idle_client_constructed n n2 a b(3) q show ?thesis by simp
qed

lemma map_of_getUri_each:
  "map_of (getUri_each ready (k, v) acc) key =
     (if ready \<and> (k = ''expires'' \<or> k = ''timeout'') then map_of acc key
      else if key = k then Some v else map_of acc key)"
  by (auto simp: getUri_each_def update_conv')

lemma fold_getUri_each:
  "distinct (map fst qps) \<Longrightarrow>
   map_of (fold (getUri_each ready) qps acc) key =
     (if key \<in> fst ` set qps \<and> \<not> (ready \<and> (key = ''expires'' \<or> key = ''timeout''))
      then map_of qps key else map_of acc key)"
proof (induction qps arbitrary: acc)
  case Nil
  then show ?case by simp
next
  case (Cons kv qps)
  obtain k v where kv: "kv = (k, v)" by (cases kv)
  have d: "distinct (map fst qps)" and nk: "k \<notin> fst ` set qps"
    using Cons.prems by (auto simp: kv)
  have "map_of (fold (getUri_each ready) (kv # qps) acc) key
        = map_of (fold (getUri_each ready) qps (getUri_each ready (k, v) acc)) key"
    by (simp add: kv)
  also have "\<dots> = (if key \<in> fst ` set qps \<and> \<not> (ready \<and> (key = ''expires'' \<or> key = ''timeout''))
      then map_of qps key else map_of (getUri_each ready (k, v) acc) key)"
    by (rule Cons.IH [OF d])
  also have "\<dots> = (if key \<in> fst ` set (kv # qps) \<and> \<not> (ready \<and> (key = ''expires'' \<or> key = ''timeout''))
      then map_of (kv # qps) key else map_of acc key)"
    using nk by (auto simp: kv map_of_getUri_each)
  finally show ?case .
qed

lemma keys_getUri_each:
  "fst ` set (getUri_each ready kv acc) \<subseteq> insert (fst kv) (fst ` set acc)"
  "ready \<Longrightarrow> fst kv = ''expires'' \<or> fst kv = ''timeout'' \<Longrightarrow> getUri_each ready kv acc = acc"
  by (simp_all add: getUri_each_def update_key_set subset_insertI)

lemma fold_getUri_each_omits:
  "key = ''expires'' \<or> key = ''timeout'' \<Longrightarrow> key \<notin> fst ` set acc \<Longrightarrow>
   key \<notin> fst ` set (fold (getUri_each True) qps acc)"
proof (induction qps arbitrary: acc)
  case Nil
  then show ?case by simp
next
  case (Cons kv qps)
  have "key \<notin> fst ` set (getUri_each True kv acc)"
  proof (cases "fst kv = ''expires'' \<or> fst kv = ''timeout''")
    case True
    then show ?thesis using Cons.prems(2) by (simp add: keys_getUri_each(2))
  next
    case False
    then have "key \<noteq> fst kv" using Cons.prems(1) by auto
    then show ?thesis
      using keys_getUri_each(1) [of True kv acc] Cons.prems(2) by auto
  qed
  then show ?case
    using Cons.IH [OF Cons.prems(1)] by simp
qed

lemma getUri_params:
  assumes "query_keys_ok c" and "sessionId c \<noteq> JNull"
  shows "map_of (a_params (getUri c)) key =
          (if key = ''sid'' then Some (sessionId c)
           else if isReady c \<and> (key = ''expires'' \<or> key = ''timeout'') then None
           else map_of (queryParams c) key)"
proof -
  have d: "distinct (map fst (queryParams c))" and ns: "''sid'' \<notin> fst ` set (queryParams c)"
    using assms(1) by (simp_all add: query_keys_ok_def)
  have n: "key \<notin> fst ` set (queryParams c) \<Longrightarrow> map_of (queryParams c) key = None"
    by (simp add: map_of_eq_None_iff)
  show ?thesis
    using assms(2) ns n
    by (auto simp: getUri_def Let_def fold_getUri_each [OF d] isReady_def)
qed

lemma getUri_ready_omits:
  assumes "isReady c" and "key = ''expires'' \<or> key = ''timeout''"
  shows "key \<notin> fst ` set (a_params (getUri c))"
proof (cases "sessionId c = JNull")
  case True
  then show ?thesis by (simp add: getUri_def)
next
  case False
  have r: "(readyTimestamp c \<noteq> None) = True"
    using assms(1) by (simp add: isReady_def)
  have "key \<notin> fst ` set [(''sid'', sessionId c)]"
    using assms(2) by auto
  then have "key \<notin> fst ` set (fold (getUri_each True) (queryParams c) [(''sid'', sessionId c)])"
    by (rule fold_getUri_each_omits [OF assms(2)])
  then show ?thesis
    using False by (simp only: getUri_def Let_def r if_True not_False_eq_True address.simps)
qed

lemma step_sessionId_ready:
  "sid_given ev \<Longrightarrow> ready_has_sid c \<Longrightarrow> ready_has_sid (fst (step now ev c))"
proof (cases ev)
  case (SigMessage k message)
  assume "sid_given ev" "ready_has_sid c"
  then show ?thesis
    by (cases message)
       (auto simp: SigMessage ready_has_sid_def processMessage_def Let_def)
qed (auto simp: ready_has_sid_def)

lemma run_ready_has_sid:
  "list_all (\<lambda>e. sid_given (snd e)) evs \<Longrightarrow> ready_has_sid c \<Longrightarrow> ready_has_sid (fst (run evs c))"
  by (induction evs arbitrary: c) (simp_all add: Let_def step_sessionId_ready)

lemma run_query_keys_ok: "query_keys_ok c \<Longrightarrow> query_keys_ok (fst (run evs c))"
  by (simp add: query_keys_ok_def run_queryParams)

lemma session_client_constructed: "constructor session_url None = Inr session_client"
  by (simp add: constructor_def autoConnect_def session_url_def session_client_def)

lemma session_run_fields:
  "isReady (fst (run handshake_trace session_client))"
  "sessionId (fst (run handshake_trace session_client)) = JStr ''rpc.1''"
  "map_of (queryParams session_client) ''x'' = Some (JStr ''1'')"
  by (simp_all add: eval_defs example_defs isReady_def processMessage_def nullish_def
                    processQueue_def query_each_def)

lemma send_ready_connected:
  assumes "isReady c" and "connection c = Some k" and "t_isConnected (conns c k)"
  shows "send list c = c\<lparr>conns := (conns c)(k := (conns c k)\<lparr>t_sent := t_sent (conns c k) @ list\<rparr>)\<rparr>"
  using assms by (auto simp: send_def send_all_eq isReady_def)

lemma reconnect_connected:
  assumes "connection c = Some k"
  shows "connection (fst (run [(t1, Reconnect), (t2, SigConnected (Suc (connectionCounter c)))] c))
           = Some (Suc (connectionCounter c))
       \<and> conns (fst (run [(t1, Reconnect), (t2, SigConnected (Suc (connectionCounter c)))] c))
            (Suc (connectionCounter c))
           = \<lparr>t_uri = getUri c, t_options = connectionOptions c, t_state = TOpen,
              t_attempts = 0, t_sent = []\<rparr>
       \<and> queue (fst (run [(t1, Reconnect), (t2, SigConnected (Suc (connectionCounter c)))] c))
           = queue c"
  using assms
  by (simp add: Let_def reconnect_def createConnection_def new_WebSocketConnection_def
                t_connect_def t_disconnect_def set_state_def on_connected_def getUri_def)

lemma ready_client_fields:
  "isReady ready_client" "connection ready_client = Some 1"
  "connectionCounter ready_client = 1" "queue ready_client = []"
  by (simp_all add: eval_defs example_defs isReady_def processMessage_def nullish_def
                    processQueue_def)

text \<open>
  Claim C10. Once the session is ready it stays ready: after any single event, after any
  run, after \<^verbatim>\<open>disconnect\<close>, \<^verbatim>\<open>reconnect\<close>, \<^verbatim>\<open>connect\<close> and after an unexpected close. So
  after any run, a \<^verbatim>\<open>_send\<close> on a connected connection hands the frames over at once and
  leaves the queue alone; in particular after \<^verbatim>\<open>reconnect()\<close>, as soon as the new connection
  is connected and before any handshake has arrived on it.
\<close>

theorem readiness_latched:
  assumes "isReady c"
  shows "isReady (fst (step now ev c))
       \<and> isReady (fst (run evs c))
       \<and> isReady (disconnect c) \<and> isReady (reconnect c) \<and> isReady (connect c)
       \<and> isReady (fst (step now (SigDisconnected k code reason) c))
       \<and> (\<forall>j. connection (fst (run evs c)) = Some j \<and> t_isConnected (conns (fst (run evs c)) j) \<longrightarrow>
             queue (send list (fst (run evs c))) = queue (fst (run evs c))
           \<and> t_sent (conns (send list (fst (run evs c))) j)
               = t_sent (conns (fst (run evs c)) j) @ list)
       \<and> (connection c \<noteq> None \<longrightarrow>
            (let c' = fst (run [(t1, Reconnect), (t2, SigConnected (Suc (connectionCounter c)))] c)
             in connection c' = Some (Suc (connectionCounter c))
              \<and> t_sent (conns c' (Suc (connectionCounter c))) = []
              \<and> queue (send list c') = queue c'
              \<and> t_sent (conns (send list c') (Suc (connectionCounter c))) = list))"
proof -
  have a: "isReady (fst (step now ev c))" for ev
    using assms by (rule step_isReady)
  have b: "isReady (fst (run evs c))" for evs
    using assms by (rule run_isReady)
  have c: "isReady (disconnect c) \<and> isReady (reconnect c) \<and> isReady (connect c)"
    using assms by (simp add: isReady_def)
  have d: "\<forall>j. connection (fst (run evs c)) = Some j \<and> t_isConnected (conns (fst (run evs c)) j) \<longrightarrow>
             queue (send list (fst (run evs c))) = queue (fst (run evs c))
           \<and> t_sent (conns (send list (fst (run evs c))) j)
               = t_sent (conns (fst (run evs c)) j) @ list"
    using b [of evs] by (auto simp: send_ready_connected)
  have e: "connection c \<noteq> None \<longrightarrow>
            (let c' = fst (run [(t1, Reconnect), (t2, SigConnected (Suc (connectionCounter c)))] c)
             in connection c' = Some (Suc (connectionCounter c))
              \<and> t_sent (conns c' (Suc (connectionCounter c))) = []
              \<and> queue (send list c') = queue c'
              \<and> t_sent (conns (send list c') (Suc (connectionCounter c))) = list)"
  proof
    assume "connection c \<noteq> None"
    then obtain k where k: "connection c = Some k" by auto
    define c' where "c' = fst (run [(t1, Reconnect), (t2, SigConnected (Suc (connectionCounter c)))] c)"
    have r: "connection c' = Some (Suc (connectionCounter c))"
      "conns c' (Suc (connectionCounter c))
         = \<lparr>t_uri = getUri c, t_options = connectionOptions c, t_state = TOpen,
            t_attempts = 0, t_sent = []\<rparr>"
      using reconnect_connected [OF k, of t1 t2] by (simp_all add: c'_def)
    have y: "isReady c'"
      unfolding c'_def by (rule b)
    have o: "t_isConnected (conns c' (Suc (connectionCounter c)))"
      by (simp add: r t_isConnected_def)
    have s: "send list c' = c'\<lparr>conns := (conns c')(Suc (connectionCounter c) :=
                (conns c' (Suc (connectionCounter c)))\<lparr>t_sent := t_sent (conns c' (Suc (connectionCounter c))) @ list\<rparr>)\<rparr>"
      using y r(1) o by (rule send_ready_connected)
    have "connection c' = Some (Suc (connectionCounter c))
              \<and> t_sent (conns c' (Suc (connectionCounter c))) = []
              \<and> queue (send list c') = queue c'
              \<and> t_sent (conns (send list c') (Suc (connectionCounter c))) = list"
      by (simp add: s r)
    then show "let c' = fst (run [(t1, Reconnect), (t2, SigConnected (Suc (connectionCounter c)))] c)
             in connection c' = Some (Suc (connectionCounter c))
              \<and> t_sent (conns c' (Suc (connectionCounter c))) = []
              \<and> queue (send list c') = queue c'
              \<and> t_sent (conns (send list c') (Suc (connectionCounter c))) = list"
      unfolding Let_def c'_def .
  qed
  from a b c d e show ?thesis by blast
qed

theorem readiness_latched_witness:
  "isReady ready_client \<and> connection ready_client \<noteq> None
   \<and> isReady (disconnect ready_client)
   \<and> isReady (fst (step 3 (SigDisconnected 1 (JNum 1006) (JStr [])) ready_client))
   \<and> queue (send [getPairs] (fst (run [(3, Reconnect), (4, SigConnected 2)] ready_client)))
       = queue (fst (run [(3, Reconnect), (4, SigConnected 2)] ready_client))
   \<and> t_sent (conns (send [getPairs] (fst (run [(3, Reconnect), (4, SigConnected 2)]
         ready_client))) 2) = [getPairs]"
proof -
  have s: "Suc (connectionCounter ready_client) = 2"
    by (simp add: ready_client_fields)
  have n: "connection ready_client \<noteq> None"
    by (simp add: ready_client_fields)
  note t = readiness_latched [OF ready_client_fields(1), where now = 3 and ev = Disconnect and evs = "[]"
                 and ?t1.0 = 3 and ?t2.0 = 4 and list = "[getPairs]"
                 and k = 1 and code = "JNum 1006" and reason = "JStr []"]
  have a: "isReady (disconnect ready_client)"
    "isReady (fst (step 3 (SigDisconnected 1 (JNum 1006) (JStr [])) ready_client))"
    using t by blast+
  have "let c' = fst (run [(3, Reconnect),
                           (4, SigConnected (Suc (connectionCounter ready_client)))] ready_client)
        in connection c' = Some (Suc (connectionCounter ready_client))
           \<and> t_sent (conns c' (Suc (connectionCounter ready_client))) = []
           \<and> queue (send [getPairs] c') = queue c'
           \<and> t_sent (conns (send [getPairs] c') (Suc (connectionCounter ready_client)))
               = [getPairs]"
    using t n by blast
  then have b: "queue (send [getPairs] (fst (run [(3, Reconnect), (4, SigConnected 2)] ready_client)))
       = queue (fst (run [(3, Reconnect), (4, SigConnected 2)] ready_client))
   \<and> t_sent (conns (send [getPairs] (fst (run [(3, Reconnect), (4, SigConnected 2)]
         ready_client))) 2) = [getPairs]"
    unfolding Let_def s by blast
  from ready_client_fields(1) n a b show ?thesis by blast
qed

section \<open>Claims about connections\<close>

lemma retry_client_constructed:
  "constructor example_url (Some retry_twice) = Inr retry_client"
  by (simp add: constructor_def parse_query_def autoConnect_def parse_options_def
                set_retryCount_def set_retryDelay_def set_pingTimeout_def
                retry_twice_def example_url_def initial_client_def retry_client_def Let_def)


lemma failures_run:
  "run failures_trace retry_client =
     (retry_client\<lparr>conns := (conns retry_client)
         (1 := (conns retry_client 1)\<lparr>t_attempts := 3, t_state := TTerminated\<rparr>)\<rparr>,
      [ConnectionError 1 1 (JStr ''ECONNREFUSED''), ConnectionError 1 2 (JStr ''ECONNREFUSED''),
       Terminated 1 3 (JStr ''ECONNREFUSED'')])"
  by (simp add: eval_defs example_defs numeral_3_eq_3)

lemma retry_client_fields:
  "t_state (conns retry_client j) = (if j = 1 then TConnecting else TNew)"
  "timers retry_client = []" "connection retry_client = Some 1"
  "connectionCounter retry_client = 1"
  by (simp_all add: eval_defs example_defs)

lemma step_connectionError:
  assumes "t_state (conns c k) = TConnecting"
  shows "(let retry = (retryable \<and>
                       (case retry_limit (t_options (conns c k)) of
                          None \<Rightarrow> True
                        | Some n \<Rightarrow> t_attempts (conns c k) < n));
              r = step now (SigConnectionError k e retryable) c
          in snd r = [if retry then ConnectionError k (Suc (t_attempts (conns c k))) e
                      else Terminated k (Suc (t_attempts (conns c k))) e]
           \<and> t_state (conns (fst r) k) = (if retry then TBackoff else TTerminated)
           \<and> t_attempts (conns (fst r) k) = Suc (t_attempts (conns c k))
           \<and> connection (fst r) = connection c
           \<and> connectionCounter (fst r) = connectionCounter c
           \<and> timers (fst r) = timers c)"
  using assms by (simp add: Let_def on_connectionError_def t_fail_def)

text \<open>
  Claim C8. The handler of \<^verbatim>\<open>connectionError\<close> emits exactly one event and changes
  nothing: \<^verbatim>\<open>connectionError\<close> when the transport says that it retries, \<^verbatim>\<open>terminated\<close>
  otherwise, with the id of the connection, the attempts and the error. With the
  transport of the spec, a failed attempt is retried (the connection waits in Backoff and
  connects again when the delay has elapsed) when it is retryable and fewer attempts than
  the retry count have failed before, or the count is unbounded; otherwise the connection
  is terminated. Either way the client makes no connection of its own, and a terminated
  connection raises no further signal. With \<^verbatim>\<open>retryCount = 2\<close> and three failures the events
  are \<^verbatim>\<open>connectionError\<close> (1), \<^verbatim>\<open>connectionError\<close> (2), \<^verbatim>\<open>terminated\<close> (3); then no signal and
  no timer changes anything, and \<^verbatim>\<open>reconnect()\<close> makes connection 2 and connects it.
\<close>

theorem connection_error_retry_or_terminate:
  "on_connectionError k err c =
     (c, [if err_retry err then ConnectionError k (err_attempts err) (err_error err)
          else Terminated k (err_attempts err) (err_error err)])
   \<and> (t_state (conns c k) = TConnecting \<longrightarrow>
        (let retry = (retryable \<and>
                       (case retry_limit (t_options (conns c k)) of
                          None \<Rightarrow> True
                        | Some n \<Rightarrow> t_attempts (conns c k) < n));
              r = step now (SigConnectionError k e retryable) c
          in snd r = [if retry then ConnectionError k (Suc (t_attempts (conns c k))) e
                      else Terminated k (Suc (t_attempts (conns c k))) e]
           \<and> t_state (conns (fst r) k) = (if retry then TBackoff else TTerminated)
           \<and> t_attempts (conns (fst r) k) = Suc (t_attempts (conns c k))
           \<and> connection (fst r) = connection c
           \<and> connectionCounter (fst r) = connectionCounter c
           \<and> timers (fst r) = timers c))
   \<and> (t_state (conns c k) = TBackoff \<longrightarrow>
        snd (step now (RetryElapsed k) c) = []
      \<and> t_state (conns (fst (step now (RetryElapsed k) c)) k) = TConnecting
      \<and> connectionCounter (fst (step now (RetryElapsed k) c)) = connectionCounter c)
   \<and> (t_state (conns c k) = TTerminated \<longrightarrow>
        step now (SigConnected k) c = (c, [])
      \<and> step now (SigMessage k message) c = (c, [])
      \<and> step now (SigDisconnected k code reason) c = (c, [])
      \<and> step now (SigConnectionError k e retryable) c = (c, [])
      \<and> step now (RetryElapsed k) c = (c, []))
   \<and> constructor example_url (Some retry_twice) = Inr retry_client
   \<and> snd (run failures_trace retry_client) =
        [ConnectionError 1 1 (JStr ''ECONNREFUSED''),
         ConnectionError 1 2 (JStr ''ECONNREFUSED''),
         Terminated 1 3 (JStr ''ECONNREFUSED'')]
   \<and> step now (SigConnected k) (fst (run failures_trace retry_client))
        = (fst (run failures_trace retry_client), [])
   \<and> step now (SigMessage k message) (fst (run failures_trace retry_client))
        = (fst (run failures_trace retry_client), [])
   \<and> step now (SigDisconnected k code reason) (fst (run failures_trace retry_client))
        = (fst (run failures_trace retry_client), [])
   \<and> step now (SigConnectionError k e retryable) (fst (run failures_trace retry_client))
        = (fst (run failures_trace retry_client), [])
   \<and> step now (RetryElapsed k) (fst (run failures_trace retry_client))
        = (fst (run failures_trace retry_client), [])
   \<and> step now (TimerFired k) (fst (run failures_trace retry_client))
        = (fst (run failures_trace retry_client), [])
   \<and> connectionCounter (fst (run failures_trace retry_client)) = 1
   \<and> connectionCounter (reconnect (fst (run failures_trace retry_client))) = 2
   \<and> t_state (conns (reconnect (fst (run failures_trace retry_client))) 2) = TConnecting"
proof -
  define cf where "cf = fst (run failures_trace retry_client)"
  have cf: "cf = retry_client\<lparr>conns := (conns retry_client)
         (1 := (conns retry_client 1)\<lparr>t_attempts := 3, t_state := TTerminated\<rparr>)\<rparr>"
    by (simp add: cf_def failures_run)
  have st: "t_state (conns cf j) = (if j = 1 then TTerminated else TNew)" for j
    by (simp add: cf retry_client_fields)
  have f: "timers cf = []" "connection cf = Some 1" "connectionCounter cf = 1"
    by (simp_all add: cf retry_client_fields)
  have a: "on_connectionError k err c =
     (c, [if err_retry err then ConnectionError k (err_attempts err) (err_error err)
          else Terminated k (err_attempts err) (err_error err)])"
    by (simp add: on_connectionError_def)
  have b: "t_state (conns c k) = TBackoff \<longrightarrow>
        snd (step now (RetryElapsed k) c) = []
      \<and> t_state (conns (fst (step now (RetryElapsed k) c)) k) = TConnecting
      \<and> connectionCounter (fst (step now (RetryElapsed k) c)) = connectionCounter c"
    by (simp add: set_state_def)
  have d: "t_state (conns c k) = TTerminated \<longrightarrow>
        step now (SigConnected k) c = (c, [])
      \<and> step now (SigMessage k message) c = (c, [])
      \<and> step now (SigDisconnected k code reason) c = (c, [])
      \<and> step now (SigConnectionError k e retryable) c = (c, [])
      \<and> step now (RetryElapsed k) c = (c, [])"
    by simp
  have q: "step now (SigConnected k) cf = (cf, [])"
    "step now (SigMessage k message) cf = (cf, [])"
    "step now (SigDisconnected k code reason) cf = (cf, [])"
    "step now (SigConnectionError k e retryable) cf = (cf, [])"
    "step now (RetryElapsed k) cf = (cf, [])"
    "step now (TimerFired k) cf = (cf, [])"
    by (simp_all add: st f)
  have r: "connectionCounter (reconnect cf) = 2"
    "t_state (conns (reconnect cf) 2) = TConnecting"
    using f by (simp_all add: reconnect_def createConnection_def t_connect_def
                               new_WebSocketConnection_def Let_def)
  have s: "snd (run failures_trace retry_client) =
        [ConnectionError 1 1 (JStr ''ECONNREFUSED''),
         ConnectionError 1 2 (JStr ''ECONNREFUSED''),
         Terminated 1 3 (JStr ''ECONNREFUSED'')]"
    by (simp add: failures_run)
  from a step_connectionError [of c k retryable now e] b d retry_client_constructed s
    q [unfolded cf_def] f(3) [unfolded cf_def] r [unfolded cf_def]
  show ?thesis by blast
qed

theorem connection_error_retry_or_terminate_witness:
  "t_state (conns retry_client 1) = TConnecting
   \<and> snd (step 1 (SigConnectionError 1 (JStr ''ECONNREFUSED'') True) retry_client)
       = [ConnectionError 1 1 (JStr ''ECONNREFUSED'')]
   \<and> t_state (conns (fst (step 1 (SigConnectionError 1 (JStr ''ECONNREFUSED'') True)
         retry_client)) 1) = TBackoff"
proof -
  have a: "t_state (conns retry_client 1) = TConnecting"
    "retry_limit (t_options (conns retry_client 1)) = Some 2"
    "t_attempts (conns retry_client 1) = 0"
    by (simp_all add: eval_defs example_defs)
  show ?thesis
    using connection_error_retry_or_terminate [where k = 1 and c = retry_client and retryable = True and now = 1
                and e = "JStr ''ECONNREFUSED''"] a
    by (simp add: Let_def)
qed

section \<open>The one live connection\<close>

lemma send_all_state [simp]: "t_state (send_all list t) = t_state t"
  by (simp add: send_all_eq)
















section \<open>Listeners, malformed handshakes and addressing\<close>










text \<open>
  Claim C7, as the code has it. A message that does not parse, a parsed \<^verbatim>\<open>null\<close>, a
  message whose member \<^verbatim>\<open>hello\<close> is \<^verbatim>\<open>null\<close>, a message with none of the members
  \<^verbatim>\<open>hello\<close>, \<^verbatim>\<open>n\<close>, \<^verbatim>\<open>r\<close>, \<^verbatim>\<open>e\<close>, and any message without \<^verbatim>\<open>hello\<close> that arrives before
  the session was ever ready: each leaves the whole client as it is and emits nothing.
  (No exception leaves \<^verbatim>\<open>_processMessage\<close>: its body is one \<^verbatim>\<open>try\<close> whose \<^verbatim>\<open>catch\<close> returns.)
  A message with a member \<^verbatim>\<open>hello\<close> that is not \<^verbatim>\<open>null\<close> is handled as a handshake
  whatever the member holds: on a session that was never ready it sets the session id to
  the member's \<^verbatim>\<open>sid\<close>, sets the ready time and emits \<^verbatim>\<open>ready\<close>.
\<close>

theorem noise_dropped:
  "processMessage now None c = (c, [])
   \<and> (nullish data \<longrightarrow> processMessage now (Some data) c = (c, []))
   \<and> (js_get data ''hello'' = JNull \<longrightarrow> processMessage now (Some data) c = (c, []))
   \<and> (js_get data ''hello'' = JUndefined \<and> js_get data ''n'' = JUndefined
        \<and> js_get data ''r'' = JUndefined \<and> js_get data ''e'' = JUndefined
      \<longrightarrow> processMessage now (Some data) c = (c, []))
   \<and> (js_get data ''hello'' = JUndefined \<and> readyTimestamp c = None
      \<longrightarrow> processMessage now (Some data) c = (c, []))
   \<and> (\<not> nullish (js_get data ''hello'') \<and> readyTimestamp c = None
      \<longrightarrow> snd (processMessage now (Some data) c)
            = [Ready (js_get (js_get data ''hello'') ''sid'') (js_get (js_get data ''hello'') ''isNew'')]
        \<and> readyTimestamp (fst (processMessage now (Some data) c)) = Some now
        \<and> sessionId (fst (processMessage now (Some data) c)) = js_get (js_get data ''hello'') ''sid'')"
proof -
  have n: "\<not> nullish (js_get data ''hello'') \<Longrightarrow> \<not> nullish data"
    by (cases data) (simp_all add: nullish_def)
  show ?thesis
    using n by (auto simp: processMessage_def Let_def nullish_def)
qed

theorem noise_dropped_witness:
  "js_get (JObj [(''x'', JNum 1)]) ''hello'' = JUndefined
   \<and> processMessage 3 (Some (JObj [(''x'', JNum 1)])) ready_client = (ready_client, [])
   \<and> js_get result_1 ''hello'' = JUndefined \<and> readyTimestamp open_client = None
   \<and> processMessage 3 (Some result_1) open_client = (open_client, [])
   \<and> \<not> nullish (js_get hello_5 ''hello'')
   \<and> snd (processMessage 3 (Some hello_5) open_client) = [Ready JUndefined JUndefined]"
proof -
  have a: "readyTimestamp open_client = None"
    by (simp add: eval_defs example_defs)
  have b: "js_get hello_5 ''hello'' = JNum 5"
    by (simp add: hello_5_def)
  show ?thesis
    using noise_dropped [where now = 3 and c = ready_client and data = "JObj [(''x'', JNum 1)]"]
      noise_dropped [where now = 3 and c = open_client and data = result_1]
      noise_dropped [where now = 3 and c = open_client and data = hello_5] a b
    by (simp add: result_1_def nullish_def)
qed

text \<open>
  Against claim C7 as stated: \<^verbatim>\<open>{"hello": 5}\<close> has none of the four shapes, and on a
  session that was never ready it is not dropped: \<^verbatim>\<open>ready\<close> is emitted, the ready time
  is set and the session id becomes \<^verbatim>\<open>undefined\<close>.
\<close>

theorem hello_member_taken_as_handshake:
  "js_get hello_5 ''hello'' = JNum 5
   \<and> readyTimestamp open_client = None
   \<and> snd (processMessage 2 (Some hello_5) open_client) = [Ready JUndefined JUndefined]
   \<and> readyTimestamp (fst (processMessage 2 (Some hello_5) open_client)) = Some 2
   \<and> sessionId open_client = JNull
   \<and> sessionId (fst (processMessage 2 (Some hello_5) open_client)) = JUndefined
   \<and> processMessage 2 (Some hello_5) open_client \<noteq> (open_client, [])"
proof -
  have a: "readyTimestamp open_client = None" "sessionId open_client = JNull"
    by (simp_all add: eval_defs example_defs)
  have b: "js_get hello_5 ''hello'' = JNum 5"
    by (simp add: hello_5_def)
  have c: "snd (processMessage 2 (Some hello_5) open_client) = [Ready JUndefined JUndefined]"
    "readyTimestamp (fst (processMessage 2 (Some hello_5) open_client)) = Some 2"
    "sessionId (fst (processMessage 2 (Some hello_5) open_client)) = JUndefined"
    using a b by (simp_all add: processMessage_def nullish_def Let_def hello_5_def)
  have "snd (processMessage 2 (Some hello_5) open_client) \<noteq> snd (open_client, [])"
    by (simp add: c)
  then have "processMessage 2 (Some hello_5) open_client \<noteq> (open_client, [])"
    by metis
  then show ?thesis
    using a b c by simp
qed

lemma null_sid_run_fields:
  "isReady (fst (run null_sid_trace session_client))"
  "sessionId (fst (run null_sid_trace session_client)) = JNull"
  "map_of (queryParams session_client) ''x'' = Some (JStr ''1'')"
  by (simp_all add: eval_defs example_defs isReady_def processMessage_def nullish_def
                    processQueue_def query_each_def)

text \<open>
  Claim C9, as the code has it. For a client that the constructor built, after any run:
  the query parameters are the original ones. When the session id is not \<^verbatim>\<open>null\<close>, the
  address carries it under \<^verbatim>\<open>sid\<close>, and every other original parameter with its value,
  except \<^verbatim>\<open>expires\<close> and \<^verbatim>\<open>timeout\<close> once the session has been ready. When the session
  id is \<^verbatim>\<open>null\<close>, the address has no parameter at all. Once the session has been ready,
  \<^verbatim>\<open>expires\<close> and \<^verbatim>\<open>timeout\<close> are never among the parameters. And after a run in which no
  handshake carries \<^verbatim>\<open>sid: null\<close>, a session that has been ready has a session id.
\<close>

theorem uri_session_and_first_only_params:
  assumes "constructor u opts = Inr c0" and "c = fst (run evs c0)"
  shows "queryParams c = queryParams c0
       \<and> (sessionId c \<noteq> JNull \<longrightarrow>
            map_of (a_params (getUri c)) ''sid'' = Some (sessionId c)
          \<and> (\<forall>key. key \<noteq> ''sid'' \<longrightarrow>
                map_of (a_params (getUri c)) key
                  = (if isReady c \<and> (key = ''expires'' \<or> key = ''timeout'') then None
                     else map_of (queryParams c0) key)))
       \<and> (sessionId c = JNull \<longrightarrow> a_params (getUri c) = [])
       \<and> (isReady c \<longrightarrow>
            ''expires'' \<notin> fst ` set (a_params (getUri c))
          \<and> ''timeout'' \<notin> fst ` set (a_params (getUri c)))
       \<and> (list_all (\<lambda>e. sid_given (snd e)) evs \<and> isReady c \<longrightarrow> sessionId c \<noteq> JNull)"
proof -
  have q: "queryParams c = queryParams c0"
    by (simp add: assms(2) run_queryParams)
  have k: "query_keys_ok c"
    using constructor_init [OF assms(1)] by (simp add: assms(2) run_query_keys_ok)
  have i: "ready_has_sid c0"
    using constructor_init [OF assms(1)] by (simp add: ready_has_sid_def)
  have r: "list_all (\<lambda>e. sid_given (snd e)) evs \<and> isReady c \<longrightarrow> sessionId c \<noteq> JNull"
  proof
    assume a: "list_all (\<lambda>e. sid_given (snd e)) evs \<and> isReady c"
    then have "ready_has_sid c"
      unfolding assms(2) using i by (intro run_ready_has_sid) simp_all
    then show "sessionId c \<noteq> JNull"
      using a by (auto simp: ready_has_sid_def isReady_def)
  qed
  have n: "sessionId c = JNull \<longrightarrow> a_params (getUri c) = []"
    by (simp add: getUri_def)
  show ?thesis
    using q r n getUri_params [OF k] getUri_ready_omits [of c] by auto
qed

theorem uri_session_and_first_only_params_witness:
  "constructor session_url None = Inr session_client
   \<and> list_all (\<lambda>e. sid_given (snd e)) handshake_trace
   \<and> isReady (fst (run handshake_trace session_client))
   \<and> sessionId (fst (run handshake_trace session_client)) \<noteq> JNull
   \<and> map_of (a_params (getUri (fst (run handshake_trace session_client)))) ''sid''
       = Some (JStr ''rpc.1'')
   \<and> ''expires'' \<notin> fst ` set (a_params (getUri (fst (run handshake_trace session_client))))
   \<and> ''timeout'' \<notin> fst ` set (a_params (getUri (fst (run handshake_trace session_client))))
   \<and> map_of (a_params (getUri (fst (run handshake_trace session_client)))) ''x''
       = Some (JStr ''1'')"
proof -
  have t: "list_all (\<lambda>e. sid_given (snd e)) handshake_trace"
    by (simp add: handshake_trace_def hello_new_def)
  note th = uri_session_and_first_only_params [OF session_client_constructed refl, of handshake_trace]
  have s: "sessionId (fst (run handshake_trace session_client)) \<noteq> JNull"
    using th t session_run_fields(1) by blast
  have "map_of (a_params (getUri (fst (run handshake_trace session_client)))) ''x''
          = map_of (queryParams session_client) ''x''"
    using th s by simp
  moreover have "map_of (a_params (getUri (fst (run handshake_trace session_client)))) ''sid''
          = Some (sessionId (fst (run handshake_trace session_client)))"
    using th s by blast
  moreover have "''expires'' \<notin> fst ` set (a_params (getUri (fst (run handshake_trace session_client))))"
    "''timeout'' \<notin> fst ` set (a_params (getUri (fst (run handshake_trace session_client))))"
    using th session_run_fields(1) by blast+
  ultimately show ?thesis
    using session_client_constructed t s session_run_fields by simp
qed

text \<open>
  Against claim C9 as stated: after a handshake with \<^verbatim>\<open>sid: null\<close> the session is ready
  and the address has no parameter, so the original parameter \<^verbatim>\<open>x\<close> is lost.
\<close>

theorem null_sid_drops_params:
  "constructor session_url None = Inr session_client
   \<and> isReady (fst (run null_sid_trace session_client))
   \<and> map_of (queryParams session_client) ''x'' = Some (JStr ''1'')
   \<and> a_params (getUri (fst (run null_sid_trace session_client))) = []
   \<and> map_of (a_params (getUri (fst (run null_sid_trace session_client)))) ''x'' = None"
  using session_client_constructed null_sid_run_fields
  by (simp add: getUri_def)

end
